theory Spec2Isabelle
  imports Complex_Main "HOL-Library.Log_Nat" "HOL-Library.AList" "HOL-Library.Multiset"
begin

section \<open>Numbers\<close>

text \<open>
  The schema declares every monetary column as \<^verbatim>\<open>decimal(10, 2)\<close>; such a column is a
  string on the TypeScript side, and the route handlers turn it into a JavaScript number
  with \<^verbatim>\<open>Number(...)\<close> before they add or subtract. A decimal string is modelled by the
  rational it denotes, a JavaScript number by the rational value of the binary64 it holds.
  \<^verbatim>\<open>Number\<close>, \<^verbatim>\<open>+\<close> and \<^verbatim>\<open>-\<close> round to the nearest binary64, ties to even. The exponent
  range is not modelled (no overflow to Infinity, no subnormals), neither are NaN and
  strings that are no decimal numeral.
\<close>

type_synonym decimal = rat
type_synonym js_number = rat

definition pow2 :: "int \<Rightarrow> rat" where
  "pow2 e = (if 0 \<le> e then 2 ^ nat e else 1 / 2 ^ nat (- e))"

definition round_half_even :: "rat \<Rightarrow> int" where
  "round_half_even x =
     (let f = \<lfloor>x\<rfloor>; d = x - of_int f
      in if d < 1 / 2 then f else if 1 / 2 < d then f + 1 else if even f then f else f + 1)"

text \<open>The exponent \<open>e\<close> of the last bit of a 53-bit significand: \<open>2^52 \<le> \<bar>x\<bar> / 2^e < 2^53\<close>.\<close>

definition ulp_exp :: "rat \<Rightarrow> int" where
  "ulp_exp x =
     (let a = \<bar>x\<bar>; k = bitlen (fst (quotient_of a)) - bitlen (snd (quotient_of a))
      in (if pow2 k \<le> a then k else k - 1) - 52)"

definition fp_round :: "rat \<Rightarrow> js_number" where
  "fp_round x =
     (if x = 0 then 0
      else of_int (round_half_even (x / pow2 (ulp_exp x))) * pow2 (ulp_exp x))"

definition Number :: "decimal \<Rightarrow> js_number" where
  "Number d = fp_round d"

definition js_add :: "js_number \<Rightarrow> js_number \<Rightarrow> js_number" where
  "js_add a b = fp_round (a + b)"

definition js_sub :: "js_number \<Rightarrow> js_number \<Rightarrow> js_number" where
  "js_sub a b = fp_round (a - b)"

section \<open>Data model (shared/schema.ts)\<close>

text \<open>
  Record fields share one name space, so each record's fields carry a prefix. Dates and
  timestamps are the millisecond counts that \<^verbatim>\<open>new Date(...).getTime()\<close> yields. A column
  that may be null or absent is an \<open>option\<close>. \<open>Employee\<close> keeps the fields that the payroll
  and salary routes read; the other tables keep all their columns.
\<close>

type_synonym timestamp = int

datatype user_role = administrator | hr_manager | hr_staff | employee
datatype payroll_status = draft | approved | paid
datatype payroll_item_type = earning | deduction

record User =
  u_id :: nat
  u_username :: string
  u_password :: string
  u_email :: string
  u_role :: user_role
  u_status :: "bool option"
  u_lastLogin :: "timestamp option"

record Employee =
  e_id :: nat
  e_userId :: "nat option"
  e_employeeId :: string

record SalaryStructure =
  ss_id :: nat
  ss_employeeId :: nat
  ss_basicSalary :: decimal
  ss_houseRentAllowance :: "decimal option"
  ss_conveyanceAllowance :: "decimal option"
  ss_medicalAllowance :: "decimal option"
  ss_specialAllowance :: "decimal option"
  ss_effectiveFrom :: timestamp
  ss_effectiveTo :: "timestamp option"
  ss_status :: "bool option"

record Payroll =
  p_id :: nat
  p_employeeId :: nat
  p_payPeriodStart :: timestamp
  p_payPeriodEnd :: timestamp
  p_processDate :: timestamp
  p_basicSalary :: decimal
  p_totalEarnings :: js_number
  p_totalDeductions :: js_number
  p_netSalary :: js_number
  p_status :: "payroll_status option"
  p_approvedBy :: "nat option"
  p_approvalDate :: "timestamp option"

record PayrollItem =
  pi_id :: nat
  pi_payrollId :: nat
  pi_itemType :: payroll_item_type
  pi_itemName :: string
  pi_amount :: decimal
  pi_description :: "string option"

record AuditLog =
  al_id :: nat
  al_userId :: "nat option"
  al_action :: string
  al_entityType :: string
  al_entityId :: "nat option"
  al_details :: "string option"
  al_timestamp :: timestamp

subsection \<open>Request bodies and the insert schemas\<close>

text \<open>
  A request body may lack any field. \<^verbatim>\<open>createInsertSchema(table).omit(...)\<close> is called
  with no refinement, so the schema demands the columns declared \<^verbatim>\<open>notNull()\<close> without
  a default and checks each field's type only; \<open>None\<close> is the thrown \<^verbatim>\<open>ZodError\<close>.

  \<^verbatim>\<open>processDate\<close> is a \<^verbatim>\<open>timestamp\<close> column and \<^verbatim>\<open>insertPayrollSchema\<close> does not omit it: its
  schema is \<^verbatim>\<open>z.date()\<close>, which accepts a \<^verbatim>\<open>Date\<close> instance and nothing else. A body parsed
  from JSON never holds a \<^verbatim>\<open>Date\<close> instance: there the field is absent (\<open>NoDate\<close>) or holds
  some JSON value (\<open>JsonValue\<close>, with the text of the value), and the parse throws.
  \<open>DateInstance\<close> is what only a caller inside the process can pass.
\<close>

datatype body_date = NoDate | JsonValue string | DateInstance timestamp

record PayrollBody =
  pb_employeeId :: "nat option"
  pb_payPeriodStart :: "timestamp option"
  pb_payPeriodEnd :: "timestamp option"
  pb_processDate :: body_date
  pb_basicSalary :: "decimal option"
  pb_totalEarnings :: "decimal option"
  pb_totalDeductions :: "decimal option"
  pb_netSalary :: "decimal option"
  pb_status :: "payroll_status option"
  pb_approvedBy :: "nat option"

record InsertPayroll =
  ip_employeeId :: nat
  ip_payPeriodStart :: timestamp
  ip_payPeriodEnd :: timestamp
  ip_processDate :: timestamp
  ip_basicSalary :: decimal
  ip_totalEarnings :: decimal
  ip_totalDeductions :: decimal
  ip_netSalary :: decimal
  ip_status :: "payroll_status option"
  ip_approvedBy :: "nat option"

definition insertPayrollSchema_parse :: "PayrollBody \<Rightarrow> InsertPayroll option" where
  "insertPayrollSchema_parse b =
     (case (pb_employeeId b, pb_payPeriodStart b, pb_payPeriodEnd b, pb_processDate b) of
        (Some eid, Some ps, Some pe, DateInstance pd) \<Rightarrow>
          (case (pb_basicSalary b, pb_totalEarnings b, pb_totalDeductions b, pb_netSalary b) of
             (Some bs, Some te, Some td, Some ns) \<Rightarrow>
               Some \<lparr>ip_employeeId = eid, ip_payPeriodStart = ps, ip_payPeriodEnd = pe,
                     ip_processDate = pd, ip_basicSalary = bs, ip_totalEarnings = te,
                     ip_totalDeductions = td, ip_netSalary = ns, ip_status = pb_status b,
                     ip_approvedBy = pb_approvedBy b\<rparr>
           | _ \<Rightarrow> None)
      | _ \<Rightarrow> None)"

record PayrollItemBody =
  ib_payrollId :: "nat option"
  ib_itemType :: "payroll_item_type option"
  ib_itemName :: "string option"
  ib_amount :: "decimal option"
  ib_description :: "string option"

record InsertPayrollItem =
  ii_payrollId :: nat
  ii_itemType :: payroll_item_type
  ii_itemName :: string
  ii_amount :: decimal
  ii_description :: "string option"

definition insertPayrollItemSchema_parse :: "PayrollItemBody \<Rightarrow> InsertPayrollItem option" where
  "insertPayrollItemSchema_parse b =
     (case (ib_payrollId b, ib_itemType b, ib_itemName b, ib_amount b) of
        (Some pid, Some ty, Some nm, Some am) \<Rightarrow>
          Some \<lparr>ii_payrollId = pid, ii_itemType = ty, ii_itemName = nm, ii_amount = am,
                ii_description = ib_description b\<rparr>
      | _ \<Rightarrow> None)"

record SalaryStructureBody =
  sb_employeeId :: "nat option"
  sb_basicSalary :: "decimal option"
  sb_houseRentAllowance :: "decimal option"
  sb_conveyanceAllowance :: "decimal option"
  sb_medicalAllowance :: "decimal option"
  sb_specialAllowance :: "decimal option"
  sb_effectiveFrom :: "timestamp option"
  sb_effectiveTo :: "timestamp option"
  sb_status :: "bool option"

record InsertSalaryStructure =
  is_employeeId :: nat
  is_basicSalary :: decimal
  is_houseRentAllowance :: "decimal option"
  is_conveyanceAllowance :: "decimal option"
  is_medicalAllowance :: "decimal option"
  is_specialAllowance :: "decimal option"
  is_effectiveFrom :: timestamp
  is_effectiveTo :: "timestamp option"
  is_status :: "bool option"

definition insertSalaryStructureSchema_parse ::
  "SalaryStructureBody \<Rightarrow> InsertSalaryStructure option" where
  "insertSalaryStructureSchema_parse b =
     (case (sb_employeeId b, sb_basicSalary b, sb_effectiveFrom b) of
        (Some eid, Some bs, Some ef) \<Rightarrow>
          Some \<lparr>is_employeeId = eid, is_basicSalary = bs,
                is_houseRentAllowance = sb_houseRentAllowance b,
                is_conveyanceAllowance = sb_conveyanceAllowance b,
                is_medicalAllowance = sb_medicalAllowance b,
                is_specialAllowance = sb_specialAllowance b,
                is_effectiveFrom = ef, is_effectiveTo = sb_effectiveTo b,
                is_status = sb_status b\<rparr>
      | _ \<Rightarrow> None)"

record InsertAuditLog =
  ia_userId :: "nat option"
  ia_action :: string
  ia_entityType :: string
  ia_entityId :: "nat option"
  ia_details :: "string option"

section \<open>Storage (server/storage.ts, class MemStorage)\<close>

text \<open>
  Each \<^verbatim>\<open>Map<number, T>\<close> is an association list in insertion order:
  \<^verbatim>\<open>Map.get\<close> is \<open>map_of\<close>, \<^verbatim>\<open>Map.set\<close> is \<open>AList.update\<close> (an existing key keeps its
  place, a new key goes to the end) and \<^verbatim>\<open>Array.from(m.values())\<close> is \<open>map snd\<close>.
\<close>

record store =
  users :: "(nat \<times> User) list"
  employees :: "(nat \<times> Employee) list"
  salaryStructures :: "(nat \<times> SalaryStructure) list"
  payrolls :: "(nat \<times> Payroll) list"
  payrollItems :: "(nat \<times> PayrollItem) list"
  auditLogs :: "(nat \<times> AuditLog) list"
  userCurrentId :: nat
  salaryStructureCurrentId :: nat
  payrollCurrentId :: nat
  payrollItemCurrentId :: nat
  auditLogCurrentId :: nat

text \<open>
  \<^verbatim>\<open>InsertUser\<close> as \<^verbatim>\<open>createUser\<close> receives it. Its \<^verbatim>\<open>role\<close> is optional in the type; the two
  callers, \<^verbatim>\<open>initData\<close> and the register route, always supply it.
\<close>

record InsertUser =
  iu_username :: string
  iu_password :: string
  iu_email :: string
  iu_role :: user_role
  iu_status :: "bool option"

definition getUserByUsername :: "string \<Rightarrow> store \<Rightarrow> User option" where
  "getUserByUsername username s =
     find (\<lambda>user. u_username user = username) (map snd (users s))"

definition getUserByEmail :: "string \<Rightarrow> store \<Rightarrow> User option" where
  "getUserByEmail email s = find (\<lambda>user. u_email user = email) (map snd (users s))"

definition createUser :: "InsertUser \<Rightarrow> store \<Rightarrow> User \<times> store" where
  "createUser insertUser s =
     (let i = userCurrentId s;
          user = \<lparr>u_id = i, u_username = iu_username insertUser,
                  u_password = iu_password insertUser, u_email = iu_email insertUser,
                  u_role = iu_role insertUser, u_status = iu_status insertUser,
                  u_lastLogin = None\<rparr>
      in (user, s\<lparr>users := AList.update i user (users s), userCurrentId := i + 1\<rparr>))"

definition getEmployee :: "nat \<Rightarrow> store \<Rightarrow> Employee option" where
  "getEmployee i s = map_of (employees s) i"

definition getPayroll :: "nat \<Rightarrow> store \<Rightarrow> Payroll option" where
  "getPayroll i s = map_of (payrolls s) i"

definition createPayroll :: "InsertPayroll \<Rightarrow> store \<Rightarrow> Payroll \<times> store" where
  "createPayroll insertPayroll s =
     (let i = payrollCurrentId s;
          payroll = \<lparr>p_id = i, p_employeeId = ip_employeeId insertPayroll,
                     p_payPeriodStart = ip_payPeriodStart insertPayroll,
                     p_payPeriodEnd = ip_payPeriodEnd insertPayroll,
                     p_processDate = ip_processDate insertPayroll,
                     p_basicSalary = ip_basicSalary insertPayroll,
                     p_totalEarnings = ip_totalEarnings insertPayroll,
                     p_totalDeductions = ip_totalDeductions insertPayroll,
                     p_netSalary = ip_netSalary insertPayroll,
                     p_status = ip_status insertPayroll,
                     p_approvedBy = ip_approvedBy insertPayroll,
                     p_approvalDate = None\<rparr>
      in (payroll, s\<lparr>payrolls := AList.update i payroll (payrolls s),
                      payrollCurrentId := i + 1\<rparr>))"

text \<open>
  \<^verbatim>\<open>updatePayroll(id, payrollData)\<close> stores \<^verbatim>\<open>{ ...payroll, ...payrollData }\<close>; the partial
  object is the record update \<open>payrollData\<close> that overwrites the fields it names.
\<close>

definition updatePayroll ::
  "nat \<Rightarrow> (Payroll \<Rightarrow> Payroll) \<Rightarrow> store \<Rightarrow> Payroll option \<times> store" where
  "updatePayroll i payrollData s =
     (case getPayroll i s of
        None \<Rightarrow> (None, s)
      | Some payroll \<Rightarrow>
          (let updatedPayroll = payrollData payroll
           in (Some updatedPayroll, s\<lparr>payrolls := AList.update i updatedPayroll (payrolls s)\<rparr>)))"

definition createPayrollItem :: "InsertPayrollItem \<Rightarrow> store \<Rightarrow> PayrollItem \<times> store" where
  "createPayrollItem insertPayrollItem s =
     (let i = payrollItemCurrentId s;
          payrollItem = \<lparr>pi_id = i, pi_payrollId = ii_payrollId insertPayrollItem,
                         pi_itemType = ii_itemType insertPayrollItem,
                         pi_itemName = ii_itemName insertPayrollItem,
                         pi_amount = ii_amount insertPayrollItem,
                         pi_description = ii_description insertPayrollItem\<rparr>
      in (payrollItem, s\<lparr>payrollItems := AList.update i payrollItem (payrollItems s),
                          payrollItemCurrentId := i + 1\<rparr>))"

definition getPayrollItemsByPayroll :: "nat \<Rightarrow> store \<Rightarrow> PayrollItem list" where
  "getPayrollItemsByPayroll payrollId s =
     filter (\<lambda>payrollItem. pi_payrollId payrollItem = payrollId) (map snd (payrollItems s))"

definition getSalaryStructure :: "nat \<Rightarrow> store \<Rightarrow> SalaryStructure option" where
  "getSalaryStructure i s = map_of (salaryStructures s) i"

text \<open>
  The request context: the authenticated user (\<open>None\<close> when \<^verbatim>\<open>req.isAuthenticated()\<close> is
  false), the value of \<^verbatim>\<open>new Date()\<close> during the request, and whether the audit store
  rejects a write during the request (\<^verbatim>\<open>IStorage.createAuditLog\<close> returns a promise, which
  may reject when the store is unavailable).
\<close>

record ctx =
  req_user :: "User option"
  now :: timestamp
  auditUnavailable :: bool

text \<open>
  \<^verbatim>\<open>Array.prototype.sort\<close> is stable; with the comparator
  \<^verbatim>\<open>dateB.getTime() - dateA.getTime()\<close> it is the stable sort on the negated date.
\<close>

text \<open>\<open>isCurrent\<close> is the callback that \<^verbatim>\<open>getCurrentSalaryStructure\<close> passes to \<^verbatim>\<open>filter\<close>.\<close>

definition isCurrent :: "ctx \<Rightarrow> nat \<Rightarrow> SalaryStructure \<Rightarrow> bool" where
  "isCurrent c employeeId salaryStructure \<longleftrightarrow>
     ss_employeeId salaryStructure = employeeId \<and>
     ss_status salaryStructure = Some True \<and>
     ss_effectiveFrom salaryStructure \<le> now c \<and>
     (case ss_effectiveTo salaryStructure of
        None \<Rightarrow> True
      | Some effectiveTo \<Rightarrow> now c \<le> effectiveTo)"

definition getCurrentSalaryStructure :: "ctx \<Rightarrow> nat \<Rightarrow> store \<Rightarrow> SalaryStructure option" where
  "getCurrentSalaryStructure c employeeId s =
     (case sort_key (\<lambda>a. - ss_effectiveFrom a)
             (filter (isCurrent c employeeId) (map snd (salaryStructures s))) of
        [] \<Rightarrow> None
      | salaryStructure # _ \<Rightarrow> Some salaryStructure)"

definition createSalaryStructure ::
  "InsertSalaryStructure \<Rightarrow> store \<Rightarrow> SalaryStructure \<times> store" where
  "createSalaryStructure insertSalaryStructure s =
     (let i = salaryStructureCurrentId s;
          salaryStructure =
            \<lparr>ss_id = i, ss_employeeId = is_employeeId insertSalaryStructure,
             ss_basicSalary = is_basicSalary insertSalaryStructure,
             ss_houseRentAllowance = is_houseRentAllowance insertSalaryStructure,
             ss_conveyanceAllowance = is_conveyanceAllowance insertSalaryStructure,
             ss_medicalAllowance = is_medicalAllowance insertSalaryStructure,
             ss_specialAllowance = is_specialAllowance insertSalaryStructure,
             ss_effectiveFrom = is_effectiveFrom insertSalaryStructure,
             ss_effectiveTo = is_effectiveTo insertSalaryStructure,
             ss_status = is_status insertSalaryStructure\<rparr>
      in (salaryStructure,
          s\<lparr>salaryStructures := AList.update i salaryStructure (salaryStructures s),
            salaryStructureCurrentId := i + 1\<rparr>))"

definition updateSalaryStructure ::
  "nat \<Rightarrow> (SalaryStructure \<Rightarrow> SalaryStructure) \<Rightarrow> store \<Rightarrow> SalaryStructure option \<times> store" where
  "updateSalaryStructure i salaryStructureData s =
     (case getSalaryStructure i s of
        None \<Rightarrow> (None, s)
      | Some salaryStructure \<Rightarrow>
          (let updatedSalaryStructure = salaryStructureData salaryStructure
           in (Some updatedSalaryStructure,
               s\<lparr>salaryStructures :=
                    AList.update i updatedSalaryStructure (salaryStructures s)\<rparr>)))"

definition storage_createAuditLog ::
  "ctx \<Rightarrow> InsertAuditLog \<Rightarrow> store \<Rightarrow> (AuditLog \<times> store) option" where
  "storage_createAuditLog c insertAuditLog s =
     (if auditUnavailable c then None
      else
        (let i = auditLogCurrentId s;
             auditLog = \<lparr>al_id = i, al_userId = ia_userId insertAuditLog,
                         al_action = ia_action insertAuditLog,
                         al_entityType = ia_entityType insertAuditLog,
                         al_entityId = ia_entityId insertAuditLog,
                         al_details = ia_details insertAuditLog,
                         al_timestamp = now c\<rparr>
         in Some (auditLog, s\<lparr>auditLogs := AList.update i auditLog (auditLogs s),
                               auditLogCurrentId := i + 1\<rparr>)))"

section \<open>Routes (server/routes.ts, server/auth.ts)\<close>

text \<open>
  The handlers are those that \<^verbatim>\<open>registerRoutes\<close> registers (in this source tree the text of
  the routes file follows the payroll form in
  \<^verbatim>\<open>client/src/components/payroll/payroll-form.tsx\<close>); \<^verbatim>\<open>/api/check-role\<close> is registered
  by \<^verbatim>\<open>setupAuth\<close> (\<^verbatim>\<open>unnamed/part_007\<close>, which also holds \<^verbatim>\<open>MemStorage\<close>).
  A handler returns its response and the store it leaves. The responses with an error
  status are: \<open>Unauthorized\<close> (401), \<open>Forbidden\<close> (403), \<open>NotFound\<close> (404),
  \<open>ValidationError\<close> (400 for a \<^verbatim>\<open>ZodError\<close> or for "Invalid role"), \<open>InvalidState\<close>
  (400 from a guard on the payroll status), \<open>AlreadyExists\<close> (400 for a user name or e-mail
  address that is taken) and \<open>ServerError\<close> (500, the answer to an error that a handler
  passes to \<^verbatim>\<open>next\<close> or answers from its own \<^verbatim>\<open>catch\<close>).
\<close>

datatype error =
  Unauthorized | Forbidden | NotFound | ValidationError | InvalidState | AlreadyExists
  | ServerError

definition checkAdminOrHRManager :: "ctx \<Rightarrow> error + User" where
  "checkAdminOrHRManager c =
     (case req_user c of
        None \<Rightarrow> Inl Unauthorized
      | Some user \<Rightarrow>
          if u_role user \<noteq> administrator \<and> u_role user \<noteq> hr_manager then Inl Forbidden
          else Inr user)"

text \<open>The helper \<^verbatim>\<open>createAuditLog\<close> of routes.ts: a rejected write is caught and logged.\<close>

definition createAuditLog ::
  "ctx \<Rightarrow> nat \<Rightarrow> string \<Rightarrow> string \<Rightarrow> nat \<Rightarrow> string \<Rightarrow> store \<Rightarrow> store" where
  "createAuditLog c userId action entityType entityId details s =
     (case storage_createAuditLog c
             \<lparr>ia_userId = Some userId, ia_action = action, ia_entityType = entityType,
              ia_entityId = Some entityId, ia_details = Some details\<rparr> s of
        None \<Rightarrow> s
      | Some (_, s') \<Rightarrow> s')"

fun string_of_nat :: "nat \<Rightarrow> string" where
  "string_of_nat n =
     (if n < 10 then [char_of (48 + n)]
      else string_of_nat (n div 10) @ [char_of (48 + n mod 10)])"

declare string_of_nat.simps [simp del]

text \<open>\<^verbatim>\<open>POST /api/payrolls\<close>\<close>

definition post_payrolls :: "ctx \<Rightarrow> PayrollBody \<Rightarrow> store \<Rightarrow> (error + Payroll) \<times> store" where
  "post_payrolls c body s =
     (case checkAdminOrHRManager c of
        Inl e \<Rightarrow> (Inl e, s)
      | Inr user \<Rightarrow>
          (case insertPayrollSchema_parse body of
             None \<Rightarrow> (Inl ValidationError, s)
           | Some payrollData \<Rightarrow>
               (case getEmployee (ip_employeeId payrollData) s of
                  None \<Rightarrow> (Inl NotFound, s)
                | Some employee' \<Rightarrow>
                    (let processDate = now c;
                         (payroll, s1) =
                            createPayroll (payrollData\<lparr>ip_processDate := processDate\<rparr>) s;
                         s2 = createAuditLog c (u_id user) ''create'' ''payroll'' (p_id payroll)
                                (''Payroll created for employee ID '' @ e_employeeId employee') s1
                     in (Inr payroll, s2)))))"

text \<open>\<^verbatim>\<open>POST /api/payrolls/:id/approve\<close>\<close>

definition post_payrolls_approve ::
  "ctx \<Rightarrow> nat \<Rightarrow> store \<Rightarrow> (error + Payroll option) \<times> store" where
  "post_payrolls_approve c i s =
     (case checkAdminOrHRManager c of
        Inl e \<Rightarrow> (Inl e, s)
      | Inr user \<Rightarrow>
          (case getPayroll i s of
             None \<Rightarrow> (Inl NotFound, s)
           | Some payroll \<Rightarrow>
               if p_status payroll \<noteq> Some draft then (Inl InvalidState, s)
               else
                 (let approvalDate = now c;
                      (updatedPayroll, s1) =
                         updatePayroll i
                           (\<lambda>p. p\<lparr>p_status := Some approved, p_approvedBy := Some (u_id user),
                                  p_approvalDate := Some approvalDate\<rparr>) s;
                      s2 = createAuditLog c (u_id user) ''approve'' ''payroll'' i
                             (''Payroll approved for employee ID ''
                                @ string_of_nat (p_employeeId payroll)) s1
                  in (Inr updatedPayroll, s2))))"

text \<open>\<^verbatim>\<open>POST /api/payrolls/:id/mark-paid\<close>\<close>

definition post_payrolls_mark_paid ::
  "ctx \<Rightarrow> nat \<Rightarrow> store \<Rightarrow> (error + Payroll option) \<times> store" where
  "post_payrolls_mark_paid c i s =
     (case checkAdminOrHRManager c of
        Inl e \<Rightarrow> (Inl e, s)
      | Inr user \<Rightarrow>
          (case getPayroll i s of
             None \<Rightarrow> (Inl NotFound, s)
           | Some payroll \<Rightarrow>
               if p_status payroll \<noteq> Some approved then (Inl InvalidState, s)
               else
                 (let (updatedPayroll, s1) =
                         updatePayroll i (\<lambda>p. p\<lparr>p_status := Some paid\<rparr>) s;
                      s2 = createAuditLog c (u_id user) ''paid'' ''payroll'' i
                             (''Payroll marked as paid for employee ID ''
                                @ string_of_nat (p_employeeId payroll)) s1
                  in (Inr updatedPayroll, s2))))"

text \<open>
  \<^verbatim>\<open>POST /api/payroll-items\<close>. \<open>sumItems\<close> is its \<^verbatim>\<open>forEach\<close> loop over all items of the
  payroll, which yields \<^verbatim>\<open>totalEarnings\<close> and \<^verbatim>\<open>totalDeductions\<close>.
\<close>

definition sumItems :: "PayrollItem list \<Rightarrow> js_number \<times> js_number" where
  "sumItems allItems =
     foldl (\<lambda>(totalEarnings, totalDeductions) item.
              if pi_itemType item = earning
              then (js_add totalEarnings (Number (pi_amount item)), totalDeductions)
              else (totalEarnings, js_add totalDeductions (Number (pi_amount item))))
           (0, 0) allItems"

definition post_payroll_items ::
  "ctx \<Rightarrow> PayrollItemBody \<Rightarrow> store \<Rightarrow> (error + PayrollItem) \<times> store" where
  "post_payroll_items c body s =
     (case checkAdminOrHRManager c of
        Inl e \<Rightarrow> (Inl e, s)
      | Inr user \<Rightarrow>
          (case insertPayrollItemSchema_parse body of
             None \<Rightarrow> (Inl ValidationError, s)
           | Some payrollItemData \<Rightarrow>
               (case getPayroll (ii_payrollId payrollItemData) s of
                  None \<Rightarrow> (Inl NotFound, s)
                | Some payroll \<Rightarrow>
                    if p_status payroll \<noteq> Some draft then (Inl InvalidState, s)
                    else
                      (let (payrollItem, s1) = createPayrollItem payrollItemData s;
                           allItems = getPayrollItemsByPayroll (p_id payroll) s1;
                           (totalEarnings, totalDeductions) = sumItems allItems;
                           netSalary = js_sub (js_add (Number (p_basicSalary payroll))
                                                 totalEarnings) totalDeductions;
                           (_, s2) = updatePayroll (p_id payroll)
                                       (\<lambda>p. p\<lparr>p_totalEarnings := totalEarnings,
                                              p_totalDeductions := totalDeductions,
                                              p_netSalary := netSalary\<rparr>) s1
                       in (Inr payrollItem, s2)))))"

text \<open>\<^verbatim>\<open>POST /api/salary-structures\<close>\<close>

definition post_salary_structures ::
  "ctx \<Rightarrow> SalaryStructureBody \<Rightarrow> store \<Rightarrow> (error + SalaryStructure) \<times> store" where
  "post_salary_structures c body s =
     (case checkAdminOrHRManager c of
        Inl e \<Rightarrow> (Inl e, s)
      | Inr user \<Rightarrow>
          (case insertSalaryStructureSchema_parse body of
             None \<Rightarrow> (Inl ValidationError, s)
           | Some salaryData \<Rightarrow>
               (case getEmployee (is_employeeId salaryData) s of
                  None \<Rightarrow> (Inl NotFound, s)
                | Some employee' \<Rightarrow>
                    (let s1 =
                           (if is_status salaryData = Some True then
                              (case getCurrentSalaryStructure c (is_employeeId salaryData) s of
                                 None \<Rightarrow> s
                               | Some currentSalary \<Rightarrow>
                                   snd (updateSalaryStructure (ss_id currentSalary)
                                          (\<lambda>x. x\<lparr>ss_status := Some False,
                                                 ss_effectiveTo :=
                                                   Some (is_effectiveFrom salaryData)\<rparr>) s))
                            else s);
                         (salaryStructure, s2) = createSalaryStructure salaryData s1;
                         s3 = createAuditLog c (u_id user) ''create'' ''salary''
                                (ss_id salaryStructure)
                                (''Salary structure created for employee ID ''
                                   @ e_employeeId employee') s2
                     in (Inr salaryStructure, s3)))))"

text \<open>
  \<^verbatim>\<open>GET /api/check-role\<close>. \<^verbatim>\<open>roleHierarchy\<close> is an object literal, so \<^verbatim>\<open>roleHierarchy[key]\<close>
  finds its four own properties and, for any other key, what the literal inherits from
  \<^verbatim>\<open>Object.prototype\<close>: a function (or, for \<^verbatim>\<open>__proto__\<close>, the prototype object), which
  is truthy and converts to NaN in a comparison. Every other key yields \<^verbatim>\<open>undefined\<close>; an
  absent \<^verbatim>\<open>role\<close> parameter looks up the key \<^verbatim>\<open>undefined\<close>.
\<close>

datatype js_value = Undefined | Num nat | Inherited

definition role_name :: "user_role \<Rightarrow> string" where
  "role_name r =
     (case r of administrator \<Rightarrow> ''administrator'' | hr_manager \<Rightarrow> ''hr_manager''
      | hr_staff \<Rightarrow> ''hr_staff'' | employee \<Rightarrow> ''employee'')"

definition Object_prototype_keys :: "string list" where
  "Object_prototype_keys =
     [''constructor'', ''__defineGetter__'', ''__defineSetter__'', ''hasOwnProperty'',
      ''__lookupGetter__'', ''__lookupSetter__'', ''isPrototypeOf'',
      ''propertyIsEnumerable'', ''toString'', ''valueOf'', ''__proto__'', ''toLocaleString'']"

definition roleHierarchy :: "string \<Rightarrow> js_value" where
  "roleHierarchy key =
     (if key = ''administrator'' then Num 4
      else if key = ''hr_manager'' then Num 3
      else if key = ''hr_staff'' then Num 2
      else if key = ''employee'' then Num 1
      else if key \<in> set Object_prototype_keys then Inherited
      else Undefined)"

fun js_not :: "js_value \<Rightarrow> bool" where
  "js_not Undefined = True"
| "js_not (Num n) = (n = 0)"
| "js_not Inherited = False"

fun js_ge :: "js_value \<Rightarrow> js_value \<Rightarrow> bool" where
  "js_ge (Num a) (Num b) = (b \<le> a)"
| "js_ge _ _ = False"

definition get_check_role :: "ctx \<Rightarrow> string \<Rightarrow> error + bool" where
  "get_check_role c role =
     (case req_user c of
        None \<Rightarrow> Inl Unauthorized
      | Some user \<Rightarrow>
          (let userRole = u_role user;
               userRoleLevel = roleHierarchy (role_name userRole);
               requiredRoleLevel = roleHierarchy role
           in if js_not requiredRoleLevel then Inl ValidationError
              else (let hasAccess = js_ge userRoleLevel requiredRoleLevel in Inr hasAccess)))"

text \<open>
  \<^verbatim>\<open>POST /api/register\<close> (auth.ts). \<open>userData\<close> is the result of
  \<^verbatim>\<open>userAuthSchema.parse(req.body)\<close>, \<open>None\<close> when it throws: the schema wants a user name of
  at least 3 characters, a password of at least 6, an e-mail address and a role, which
  defaults to \<^verbatim>\<open>employee\<close>. \<open>hashedPassword\<close> is what \<^verbatim>\<open>hashPassword\<close> yields in the request
  (it draws a random salt). The handler awaits \<^verbatim>\<open>storage.createAuditLog\<close> itself, inside its
  \<^verbatim>\<open>try\<close>: when the write is rejected the \<^verbatim>\<open>catch\<close> passes the error to \<^verbatim>\<open>next\<close>. Otherwise
  \<^verbatim>\<open>req.login\<close> opens the session (taken to succeed) and the answer is 201 with the user
  without the password.
\<close>

record UserAuth =
  ua_username :: string
  ua_password :: string
  ua_email :: string
  ua_role :: user_role

record UserWithoutPassword =
  up_id :: nat
  up_username :: string
  up_email :: string
  up_role :: user_role
  up_status :: "bool option"
  up_lastLogin :: "timestamp option"

definition post_register ::
  "ctx \<Rightarrow> UserAuth option \<Rightarrow> string \<Rightarrow> store \<Rightarrow> (error + UserWithoutPassword) \<times> store" where
  "post_register c parsed hashedPassword s =
     (case parsed of
        None \<Rightarrow> (Inl ValidationError, s)
      | Some userData \<Rightarrow>
          (case getUserByUsername (ua_username userData) s of
             Some existingUser \<Rightarrow> (Inl AlreadyExists, s)
           | None \<Rightarrow>
               (case getUserByEmail (ua_email userData) s of
                  Some existingEmail \<Rightarrow> (Inl AlreadyExists, s)
                | None \<Rightarrow>
                    (let (user, s1) =
                           createUser \<lparr>iu_username = ua_username userData,
                                       iu_password = hashedPassword,
                                       iu_email = ua_email userData,
                                       iu_role = ua_role userData, iu_status = None\<rparr> s
                     in case storage_createAuditLog c
                               \<lparr>ia_userId = Some (u_id user), ia_action = ''register'',
                                ia_entityType = ''user'', ia_entityId = Some (u_id user),
                                ia_details =
                                  Some (''User '' @ u_username user @ '' registered'')\<rparr> s1 of
                          None \<Rightarrow> (Inl ServerError, s1)
                        | Some (auditLog, s2) \<Rightarrow>
                            (Inr \<lparr>up_id = u_id user, up_username = u_username user,
                                  up_email = u_email user, up_role = u_role user,
                                  up_status = u_status user,
                                  up_lastLogin = u_lastLogin user\<rparr>, s2)))))"

section \<open>Sequences of requests\<close>

text \<open>
  The requests that write payrolls, payroll items or salary structures; no other route
  of routes.ts calls \<^verbatim>\<open>createPayroll\<close>, \<^verbatim>\<open>updatePayroll\<close> or \<^verbatim>\<open>createPayrollItem\<close>. Each request
  comes with its own context.
\<close>

datatype request =
    CreatePayroll PayrollBody
  | Approve nat
  | MarkPaid nat
  | AddItem PayrollItemBody
  | CreateSalaryStructure SalaryStructureBody

fun step :: "ctx \<times> request \<Rightarrow> store \<Rightarrow> store" where
  "step (c, CreatePayroll body) s = snd (post_payrolls c body s)"
| "step (c, Approve i) s = snd (post_payrolls_approve c i s)"
| "step (c, MarkPaid i) s = snd (post_payrolls_mark_paid c i s)"
| "step (c, AddItem body) s = snd (post_payroll_items c body s)"
| "step (c, CreateSalaryStructure body) s = snd (post_salary_structures c body s)"

definition run :: "(ctx \<times> request) list \<Rightarrow> store \<Rightarrow> store" where
  "run rs s = fold step rs s"

text \<open>
  What the constructor of \<^verbatim>\<open>MemStorage\<close> establishes and every method keeps: a map
  holds a key once, its keys lie below its id counter, and a record is stored under its
  own id.
\<close>

definition store_inv :: "store \<Rightarrow> bool" where
  "store_inv s \<longleftrightarrow>
     distinct (map fst (payrolls s)) \<and>
     distinct (map fst (payrollItems s)) \<and>
     distinct (map fst (salaryStructures s)) \<and>
     list_all (\<lambda>(k, p). k < payrollCurrentId s \<and> p_id p = k) (payrolls s) \<and>
     list_all (\<lambda>(k, x). k < payrollItemCurrentId s \<and> pi_id x = k) (payrollItems s) \<and>
     list_all (\<lambda>(k, x). k < salaryStructureCurrentId s \<and> ss_id x = k) (salaryStructures s)"

definition status_rank :: "payroll_status option \<Rightarrow> nat" where
  "status_rank st =
     (case st of None \<Rightarrow> 0 | Some draft \<Rightarrow> 1 | Some approved \<Rightarrow> 2 | Some paid \<Rightarrow> 3)"

definition forward_move :: "payroll_status option \<Rightarrow> payroll_status option \<Rightarrow> bool" where
  "forward_move a b \<longleftrightarrow>
     b = a \<or> (a = Some draft \<and> b = Some approved) \<or> (a = Some approved \<and> b = Some paid)"

section \<open>Example states\<close>

definition hr :: User where
  "hr = \<lparr>u_id = 7, u_username = ''hr'', u_password = ''x'', u_email = ''hr@example.com'',
         u_role = hr_manager, u_status = Some True, u_lastLogin = None\<rparr>"

definition hr_ctx :: ctx where
  "hr_ctx = \<lparr>req_user = Some hr, now = 1000, auditUnavailable = False\<rparr>"

definition alice :: Employee where
  "alice = \<lparr>e_id = 1, e_userId = None, e_employeeId = ''EMP001''\<rparr>"

definition example_payroll :: "payroll_status option \<Rightarrow> Payroll" where
  "example_payroll st =
     \<lparr>p_id = 1, p_employeeId = 1, p_payPeriodStart = 100, p_payPeriodEnd = 200,
      p_processDate = 300, p_basicSalary = 5000, p_totalEarnings = 0, p_totalDeductions = 0,
      p_netSalary = 5000, p_status = st,
      p_approvedBy = (if st = Some draft then None else Some 7),
      p_approvalDate = (if st = Some draft then None else Some 400)\<rparr>"

definition example_store :: "payroll_status option \<Rightarrow> store" where
  "example_store st =
     \<lparr>users = [(7, hr)], employees = [(1, alice)], salaryStructures = [],
      payrolls = [(1, example_payroll st)], payrollItems = [], auditLogs = [],
      userCurrentId = 8, salaryStructureCurrentId = 1, payrollCurrentId = 2,
      payrollItemCurrentId = 1, auditLogCurrentId = 1\<rparr>"

definition down_ctx :: ctx where
  "down_ctx = \<lparr>req_user = None, now = 1000, auditUnavailable = True\<rparr>"

definition example_registration :: UserAuth where
  "example_registration =
     \<lparr>ua_username = ''carol'', ua_password = ''secret1'', ua_email = ''carol@example.com'',
      ua_role = employee\<rparr>"

definition example_body :: "decimal option \<Rightarrow> decimal \<Rightarrow> PayrollBody" where
  "example_body basicSalary totalEarnings =
     \<lparr>pb_employeeId = Some 1, pb_payPeriodStart = Some 100, pb_payPeriodEnd = Some 200,
      pb_processDate = NoDate, pb_basicSalary = basicSalary,
      pb_totalEarnings = Some totalEarnings, pb_totalDeductions = Some 0,
      pb_netSalary = Some 5000, pb_status = Some draft, pb_approvedBy = None\<rparr>"

definition example_item :: "payroll_item_type \<Rightarrow> string \<Rightarrow> decimal \<Rightarrow> PayrollItemBody" where
  "example_item ty name amount =
     \<lparr>ib_payrollId = Some 1, ib_itemType = Some ty, ib_itemName = Some name,
      ib_amount = Some amount, ib_description = None\<rparr>"

definition role_rank :: "user_role \<Rightarrow> nat" where
  "role_rank r = (case r of administrator \<Rightarrow> 4 | hr_manager \<Rightarrow> 3 | hr_staff \<Rightarrow> 2 | employee \<Rightarrow> 1)"

definition example_salary_body :: "timestamp \<Rightarrow> SalaryStructureBody" where
  "example_salary_body effectiveFrom =
     \<lparr>sb_employeeId = Some 1, sb_basicSalary = Some 5000, sb_houseRentAllowance = None,
      sb_conveyanceAllowance = None, sb_medicalAllowance = None, sb_specialAllowance = None,
      sb_effectiveFrom = Some effectiveFrom, sb_effectiveTo = None, sb_status = Some True\<rparr>"

definition example_structure :: "nat \<Rightarrow> timestamp \<Rightarrow> timestamp option \<Rightarrow> bool \<Rightarrow> SalaryStructure" where
  "example_structure i effectiveFrom effectiveTo active =
     \<lparr>ss_id = i, ss_employeeId = 1, ss_basicSalary = 5000, ss_houseRentAllowance = None,
      ss_conveyanceAllowance = None, ss_medicalAllowance = None, ss_specialAllowance = None,
      ss_effectiveFrom = effectiveFrom, ss_effectiveTo = effectiveTo,
      ss_status = Some active\<rparr>"

definition early_ctx :: ctx where
  "early_ctx = \<lparr>req_user = Some hr, now = 0, auditUnavailable = False\<rparr>"

text \<open>
  Two active structures, both effective from 500, posted at time 0: neither is current
  when the other is created, so neither is retired.
\<close>

definition tie_store :: store where
  "tie_store =
     run [(early_ctx, CreateSalaryStructure (example_salary_body 500)),
          (early_ctx, CreateSalaryStructure (example_salary_body 500))] (example_store None)"

text \<open>One active structure, effective from 500, posted at time 1000.\<close>

definition one_structure_store :: store where
  "one_structure_store =
     run [(hr_ctx, CreateSalaryStructure (example_salary_body 500))] (example_store None)"

section \<open>Sequences of addItem requests\<close>

text \<open>The request body that carries the fields of a parsed item.\<close>

definition itemBody :: "InsertPayrollItem \<Rightarrow> PayrollItemBody" where
  "itemBody d =
     \<lparr>ib_payrollId = Some (ii_payrollId d), ib_itemType = Some (ii_itemType d),
      ib_itemName = Some (ii_itemName d), ib_amount = Some (ii_amount d),
      ib_description = ii_description d\<rparr>"

definition addItemRequest :: "ctx \<times> InsertPayrollItem \<Rightarrow> ctx \<times> request" where
  "addItemRequest cd = (fst cd, AddItem (itemBody (snd cd)))"

text \<open>The payroll as \<^verbatim>\<open>POST /api/payroll-items\<close> stores it, given all items of the payroll.\<close>

definition recomputed :: "Payroll \<Rightarrow> PayrollItem list \<Rightarrow> Payroll" where
  "recomputed p allItems =
     p\<lparr>p_totalEarnings := fst (sumItems allItems),
       p_totalDeductions := snd (sumItems allItems),
       p_netSalary := js_sub (js_add (Number (p_basicSalary p)) (fst (sumItems allItems)))
                        (snd (sumItems allItems))\<rparr>"

text \<open>The exact sum of the amounts of one item type in a list of (type, amount) pairs.\<close>

definition totalOf :: "payroll_item_type \<Rightarrow> (payroll_item_type \<times> decimal) list \<Rightarrow> rat" where
  "totalOf t es = sum_list (map snd (filter (\<lambda>e. fst e = t) es))"

definition example_items ::
  "(payroll_item_type \<times> decimal) list \<Rightarrow> (ctx \<times> InsertPayrollItem) list" where
  "example_items es =
     map (\<lambda>e. (hr_ctx, \<lparr>ii_payrollId = 1, ii_itemType = fst e, ii_itemName = ''Item'',
                         ii_amount = snd e, ii_description = None\<rparr>)) es"

section \<open>Properties\<close>

lemma createAuditLog_fields [simp]:
  "payrolls (createAuditLog c u a t i d s) = payrolls s"
  "payrollCurrentId (createAuditLog c u a t i d s) = payrollCurrentId s"
  "payrollItems (createAuditLog c u a t i d s) = payrollItems s"
  "payrollItemCurrentId (createAuditLog c u a t i d s) = payrollItemCurrentId s"
  "salaryStructures (createAuditLog c u a t i d s) = salaryStructures s"
  "salaryStructureCurrentId (createAuditLog c u a t i d s) = salaryStructureCurrentId s"
  "employees (createAuditLog c u a t i d s) = employees s"
  by (simp_all add: createAuditLog_def storage_createAuditLog_def Let_def)

lemma getPayroll_createAuditLog [simp]:
  "getPayroll i (createAuditLog c u a t j d s) = getPayroll i s"
  by (simp add: getPayroll_def)

lemma updatePayroll_fields [simp]:
  "payrollCurrentId (snd (updatePayroll i f s)) = payrollCurrentId s"
  "payrollItems (snd (updatePayroll i f s)) = payrollItems s"
  "payrollItemCurrentId (snd (updatePayroll i f s)) = payrollItemCurrentId s"
  "salaryStructures (snd (updatePayroll i f s)) = salaryStructures s"
  "salaryStructureCurrentId (snd (updatePayroll i f s)) = salaryStructureCurrentId s"
  "employees (snd (updatePayroll i f s)) = employees s"
  by (simp_all add: updatePayroll_def Let_def split: option.splits)

lemma getPayroll_updatePayroll:
  "getPayroll j (snd (updatePayroll i f s)) =
     (if j = i then map_option f (getPayroll i s) else getPayroll j s)"
  by (simp add: updatePayroll_def getPayroll_def Let_def update_conv' split: option.splits)

lemma fst_updatePayroll: "fst (updatePayroll i f s) = map_option f (getPayroll i s)"
  by (simp add: updatePayroll_def Let_def split: option.splits)

lemma approve_result:
  assumes "checkAdminOrHRManager c = Inr u" "getPayroll i s = Some p"
  shows "fst (post_payrolls_approve c i s) =
          (if p_status p = Some draft
           then Inr (Some (p\<lparr>p_status := Some approved, p_approvedBy := Some (u_id u),
                             p_approvalDate := Some (now c)\<rparr>))
           else Inl InvalidState)"
  using assms
  by (simp add: post_payrolls_approve_def Let_def split_beta fst_updatePayroll)

lemma mark_paid_result:
  assumes "checkAdminOrHRManager c = Inr u" "getPayroll i s = Some p"
  shows "fst (post_payrolls_mark_paid c i s) =
          (if p_status p = Some approved then Inr (Some (p\<lparr>p_status := Some paid\<rparr>))
           else Inl InvalidState)"
  using assms
  by (simp add: post_payrolls_mark_paid_def Let_def split_beta fst_updatePayroll)

lemma getPayroll_approve:
  "getPayroll j (snd (post_payrolls_approve c i s)) =
     (if j = i \<and> (\<exists>u. checkAdminOrHRManager c = Inr u) \<and>
         (\<exists>p. getPayroll i s = Some p \<and> p_status p = Some draft)
      then map_option (\<lambda>p. p\<lparr>p_status := Some approved,
                              p_approvedBy := map_option u_id (req_user c),
                              p_approvalDate := Some (now c)\<rparr>) (getPayroll i s)
      else getPayroll j s)"
  by (auto simp: post_payrolls_approve_def Let_def split_beta getPayroll_updatePayroll
        checkAdminOrHRManager_def
      split: sum.splits option.splits if_splits)


lemma getPayroll_mark_paid:
  "getPayroll j (snd (post_payrolls_mark_paid c i s)) =
     (if j = i \<and> (\<exists>u. checkAdminOrHRManager c = Inr u) \<and>
         (\<exists>p. getPayroll i s = Some p \<and> p_status p = Some approved)
      then map_option (\<lambda>p. p\<lparr>p_status := Some paid\<rparr>) (getPayroll i s)
      else getPayroll j s)"
  by (auto simp: post_payrolls_mark_paid_def Let_def split_beta getPayroll_updatePayroll
      split: sum.splits option.splits if_splits)

lemma createPayrollItem_fields [simp]:
  "payrolls (snd (createPayrollItem x s)) = payrolls s"
  "payrollCurrentId (snd (createPayrollItem x s)) = payrollCurrentId s"
  "salaryStructures (snd (createPayrollItem x s)) = salaryStructures s"
  "salaryStructureCurrentId (snd (createPayrollItem x s)) = salaryStructureCurrentId s"
  "employees (snd (createPayrollItem x s)) = employees s"
  "payrollItemCurrentId (snd (createPayrollItem x s)) = payrollItemCurrentId s + 1"
  by (simp_all add: createPayrollItem_def Let_def)

lemma getPayroll_createPayrollItem [simp]:
  "getPayroll i (snd (createPayrollItem x s)) = getPayroll i s"
  by (simp add: getPayroll_def)

lemma status_after_items:
  assumes "getPayroll j s = Some p"
  shows "\<exists>p'. getPayroll j (snd (post_payroll_items c body s)) = Some p' \<and>
              p_status p' = p_status p"
  using assms
  by (auto simp: post_payroll_items_def Let_def split_beta getPayroll_updatePayroll
      split: sum.splits option.splits if_splits)

lemma getPayroll_lt:
  assumes "store_inv s" "getPayroll j s = Some p"
  shows "j < payrollCurrentId s \<and> p_id p = j"
proof -
  from assms(2) have "(j, p) \<in> set (payrolls s)"
    by (simp add: getPayroll_def map_of_SomeD)
  with assms(1) show ?thesis
    by (auto simp: store_inv_def list_all_iff)
qed

lemma getPayroll_create:
  assumes "store_inv s" "getPayroll j s = Some p"
  shows "getPayroll j (snd (post_payrolls c body s)) = Some p"
proof -
  have "j \<noteq> payrollCurrentId s" using getPayroll_lt[OF assms] by simp
  then show ?thesis using assms(2)
    by (auto simp: post_payrolls_def Let_def split_beta createPayroll_def getPayroll_def
        update_conv' split: sum.splits option.splits)
qed

lemma updateSalaryStructure_fields [simp]:
  "payrolls (snd (updateSalaryStructure i f s)) = payrolls s"
  "payrollCurrentId (snd (updateSalaryStructure i f s)) = payrollCurrentId s"
  "payrollItems (snd (updateSalaryStructure i f s)) = payrollItems s"
  "payrollItemCurrentId (snd (updateSalaryStructure i f s)) = payrollItemCurrentId s"
  "salaryStructureCurrentId (snd (updateSalaryStructure i f s)) = salaryStructureCurrentId s"
  "employees (snd (updateSalaryStructure i f s)) = employees s"
  by (simp_all add: updateSalaryStructure_def Let_def split: option.splits)

lemma createSalaryStructure_fields [simp]:
  "payrolls (snd (createSalaryStructure x s)) = payrolls s"
  "payrollCurrentId (snd (createSalaryStructure x s)) = payrollCurrentId s"
  "payrollItems (snd (createSalaryStructure x s)) = payrollItems s"
  "payrollItemCurrentId (snd (createSalaryStructure x s)) = payrollItemCurrentId s"
  "employees (snd (createSalaryStructure x s)) = employees s"
  "salaryStructureCurrentId (snd (createSalaryStructure x s)) = salaryStructureCurrentId s + 1"
  by (simp_all add: createSalaryStructure_def Let_def)

lemma salary_payroll_fields [simp]:
  "payrolls (snd (post_salary_structures c body s)) = payrolls s"
  "payrollCurrentId (snd (post_salary_structures c body s)) = payrollCurrentId s"
  "payrollItems (snd (post_salary_structures c body s)) = payrollItems s"
  "payrollItemCurrentId (snd (post_salary_structures c body s)) = payrollItemCurrentId s"
  by (simp_all add: post_salary_structures_def Let_def split_beta
      split: sum.splits option.splits)

lemma step_forward:
  assumes "store_inv s" "getPayroll j s = Some p"
  shows "\<exists>p'. getPayroll j (step r s) = Some p' \<and> forward_move (p_status p) (p_status p')"
proof (cases r)
  case (Pair c q)
  show ?thesis
  proof (cases q)
    case (CreatePayroll body)
    with Pair getPayroll_create[OF assms] show ?thesis by (simp add: forward_move_def)
  next
    case (Approve i)
    with Pair assms(2) show ?thesis
      by (auto simp: getPayroll_approve forward_move_def)
  next
    case (MarkPaid i)
    with Pair assms(2) show ?thesis
      by (auto simp: getPayroll_mark_paid forward_move_def)
  next
    case (AddItem body)
    with Pair status_after_items[OF assms(2)] show ?thesis
      by (auto simp: forward_move_def)
  next
    case (CreateSalaryStructure body)
    with Pair assms(2) show ?thesis
      by (simp add: getPayroll_def forward_move_def)
  qed
qed


lemma list_all_update:
  "list_all P al \<Longrightarrow> P (k, v) \<Longrightarrow> list_all P (AList.update k v al)"
  by (induction al) auto

lemma list_all_key_mono:
  "list_all (\<lambda>(k, x). k < n \<and> Q k x) al \<Longrightarrow> list_all (\<lambda>(k, x). k < Suc n \<and> Q k x) al"
  by (induction al) auto

lemma store_inv_audit [simp]: "store_inv (createAuditLog c u a t i d s) = store_inv s"
  by (simp add: store_inv_def)

lemma store_inv_updatePayroll:
  assumes "store_inv s" "\<And>p. p_id (f p) = p_id p"
  shows "store_inv (snd (updatePayroll i f s))"
proof (cases "getPayroll i s")
  case None
  then show ?thesis using assms by (simp add: updatePayroll_def)
next
  case (Some p)
  from getPayroll_lt[OF assms(1) Some] assms show ?thesis
    by (simp add: updatePayroll_def Let_def Some store_inv_def list_all_update distinct_update)
qed

lemma store_inv_createPayroll:
  assumes "store_inv s"
  shows "store_inv (snd (createPayroll x s))"
  using assms
  by (simp add: createPayroll_def Let_def store_inv_def list_all_update list_all_key_mono distinct_update)

lemma store_inv_createPayrollItem:
  assumes "store_inv s"
  shows "store_inv (snd (createPayrollItem x s))"
  using assms
  by (simp add: createPayrollItem_def Let_def store_inv_def list_all_update list_all_key_mono distinct_update)

lemma store_inv_createSalaryStructure:
  assumes "store_inv s"
  shows "store_inv (snd (createSalaryStructure x s))"
  using assms
  by (simp add: createSalaryStructure_def Let_def store_inv_def list_all_update list_all_key_mono distinct_update)

lemma getSalaryStructure_lt:
  assumes "store_inv s" "getSalaryStructure j s = Some x"
  shows "j < salaryStructureCurrentId s \<and> ss_id x = j"
proof -
  from assms(2) have "(j, x) \<in> set (salaryStructures s)"
    by (simp add: getSalaryStructure_def map_of_SomeD)
  with assms(1) show ?thesis
    by (auto simp: store_inv_def list_all_iff)
qed

lemma store_inv_updateSalaryStructure:
  assumes "store_inv s" "\<And>p. ss_id (f p) = ss_id p"
  shows "store_inv (snd (updateSalaryStructure i f s))"
proof (cases "getSalaryStructure i s")
  case None
  then show ?thesis using assms by (simp add: updateSalaryStructure_def)
next
  case (Some p)
  from getSalaryStructure_lt[OF assms(1) Some] assms show ?thesis
    by (simp add: updateSalaryStructure_def Let_def Some store_inv_def list_all_update distinct_update)
qed

lemma store_inv_step:
  assumes "store_inv s"
  shows "store_inv (step r s)"
proof (cases r)
  case (Pair c q)
  show ?thesis
  proof (cases q)
    case (CreatePayroll body)
    with Pair assms show ?thesis
      by (auto simp: post_payrolls_def Let_def split_beta store_inv_createPayroll
          split: sum.splits option.splits)
  next
    case (Approve i)
    with Pair assms show ?thesis
      by (auto simp: post_payrolls_approve_def Let_def split_beta store_inv_updatePayroll
          split: sum.splits option.splits)
  next
    case (MarkPaid i)
    with Pair assms show ?thesis
      by (auto simp: post_payrolls_mark_paid_def Let_def split_beta store_inv_updatePayroll
          split: sum.splits option.splits)
  next
    case (AddItem body)
    with Pair assms show ?thesis
      by (auto simp: post_payroll_items_def Let_def split_beta store_inv_updatePayroll
          store_inv_createPayrollItem split: sum.splits option.splits)
  next
    case (CreateSalaryStructure body)
    with Pair assms show ?thesis
      by (auto simp: post_salary_structures_def Let_def split_beta
          store_inv_updateSalaryStructure store_inv_createSalaryStructure
          split: sum.splits option.splits)
  qed
qed

lemma store_inv_run: "store_inv s \<Longrightarrow> store_inv (run rs s)"
  unfolding run_def by (induction rs arbitrary: s) (auto simp: store_inv_step)

lemma forward_move_rank: "forward_move a b \<Longrightarrow> status_rank a \<le> status_rank b"
  by (auto simp: forward_move_def status_rank_def)

lemma run_rank:
  assumes "store_inv s" "getPayroll j s = Some p"
  shows "\<exists>p'. getPayroll j (run rs s) = Some p' \<and>
               status_rank (p_status p) \<le> status_rank (p_status p')"
  using assms
proof (induction rs arbitrary: s p)
  case Nil
  then show ?case by (simp add: run_def)
next
  case (Cons r rs)
  from step_forward[OF Cons.prems] obtain p1 where
    p1: "getPayroll j (step r s) = Some p1" "forward_move (p_status p) (p_status p1)"
    by blast
  from Cons.IH[OF store_inv_step[OF Cons.prems(1)] p1(1)] obtain p' where
    "getPayroll j (run rs (step r s)) = Some p'"
    "status_rank (p_status p1) \<le> status_rank (p_status p')" by blast
  with forward_move_rank[OF p1(2)] show ?case
    by (auto simp: run_def)
qed


lemma post_approve_unchanged:
  assumes "getPayroll i s = Some p" "p_status p \<noteq> Some draft"
    "checkAdminOrHRManager c = Inr u"
  shows "post_payrolls_approve c i s = (Inl InvalidState, s)"
  using assms by (simp add: post_payrolls_approve_def)

lemma post_mark_paid_unchanged:
  assumes "getPayroll i s = Some p" "p_status p \<noteq> Some approved"
    "checkAdminOrHRManager c = Inr u"
  shows "post_payrolls_mark_paid c i s = (Inl InvalidState, s)"
  using assms by (simp add: post_payrolls_mark_paid_def)

lemma post_approve_draft:
  assumes "getPayroll i s = Some p" "p_status p = Some draft"
    "checkAdminOrHRManager c = Inr u"
  shows "fst (post_payrolls_approve c i s) =
           Inr (Some (p\<lparr>p_status := Some approved, p_approvedBy := Some (u_id u),
                         p_approvalDate := Some (now c)\<rparr>)) \<and>
         getPayroll i (snd (post_payrolls_approve c i s)) =
           Some (p\<lparr>p_status := Some approved, p_approvedBy := Some (u_id u),
                        p_approvalDate := Some (now c)\<rparr>)"
  using assms
  by (simp add: post_payrolls_approve_def Let_def split_beta fst_updatePayroll
      getPayroll_updatePayroll)

lemma post_mark_paid_approved:
  assumes "getPayroll i s = Some p" "p_status p = Some approved"
    "checkAdminOrHRManager c = Inr u"
  shows "fst (post_payrolls_mark_paid c i s) = Inr (Some (p\<lparr>p_status := Some paid\<rparr>)) \<and>
         getPayroll i (snd (post_payrolls_mark_paid c i s)) = Some (p\<lparr>p_status := Some paid\<rparr>)"
  using assms
  by (simp add: post_payrolls_mark_paid_def Let_def split_beta fst_updatePayroll
      getPayroll_updatePayroll)

text \<open>
  C1. With an authorised actor and an existing payroll, approve succeeds exactly from
  \<open>draft\<close> and markPaid exactly from \<open>approved\<close>; from any other status they answer
  \<open>InvalidState\<close> and leave the store as it is. Along every sequence of requests that
  starts in a state of \<^verbatim>\<open>MemStorage\<close>, the payroll stays stored, its status never falls
  below where it started, and each further request keeps the status or moves it one
  state along draft, approved, paid.
\<close>

theorem payroll_status_moves_forward:
  assumes "store_inv s" and "getPayroll i s = Some p" and "checkAdminOrHRManager c = Inr u"
  shows
   "(p_status p = Some draft \<longrightarrow>
       fst (post_payrolls_approve c i s) =
         Inr (Some (p\<lparr>p_status := Some approved, p_approvedBy := Some (u_id u),
                       p_approvalDate := Some (now c)\<rparr>)) \<and>
       getPayroll i (snd (post_payrolls_approve c i s)) =
         Some (p\<lparr>p_status := Some approved, p_approvedBy := Some (u_id u),
                      p_approvalDate := Some (now c)\<rparr>)) \<and>
    (p_status p \<noteq> Some draft \<longrightarrow> post_payrolls_approve c i s = (Inl InvalidState, s)) \<and>
    (p_status p = Some approved \<longrightarrow>
       fst (post_payrolls_mark_paid c i s) = Inr (Some (p\<lparr>p_status := Some paid\<rparr>)) \<and>
       getPayroll i (snd (post_payrolls_mark_paid c i s)) = Some (p\<lparr>p_status := Some paid\<rparr>)) \<and>
    (p_status p \<noteq> Some approved \<longrightarrow> post_payrolls_mark_paid c i s = (Inl InvalidState, s)) \<and>
    (\<exists>p1 p2. getPayroll i (run rs s) = Some p1 \<and>
             getPayroll i (step r (run rs s)) = Some p2 \<and>
             status_rank (p_status p) \<le> status_rank (p_status p1) \<and>
             forward_move (p_status p1) (p_status p2))"
proof -
  from run_rank[OF assms(1,2)] obtain p1 where
    p1: "getPayroll i (run rs s) = Some p1"
        "status_rank (p_status p) \<le> status_rank (p_status p1)" by blast
  from step_forward[OF store_inv_run[OF assms(1)] p1(1)] obtain p2 where
    "getPayroll i (step r (run rs s)) = Some p2" "forward_move (p_status p1) (p_status p2)"
    by blast
  with p1 have "\<exists>p1 p2. getPayroll i (run rs s) = Some p1 \<and>
             getPayroll i (step r (run rs s)) = Some p2 \<and>
             status_rank (p_status p) \<le> status_rank (p_status p1) \<and>
             forward_move (p_status p1) (p_status p2)" by blast
  with post_approve_draft[OF assms(2) _ assms(3)] post_approve_unchanged[OF assms(2) _ assms(3)]
    post_mark_paid_approved[OF assms(2) _ assms(3)]
    post_mark_paid_unchanged[OF assms(2) _ assms(3)]
  show ?thesis by blast
qed

lemma example_store_inv: "store_inv (example_store st)"
  by (simp add: store_inv_def example_store_def example_payroll_def)

lemma example_getPayroll: "getPayroll 1 (example_store st) = Some (example_payroll st)"
  by (simp add: getPayroll_def example_store_def)

lemma hr_allowed: "checkAdminOrHRManager hr_ctx = Inr hr"
  by (simp add: checkAdminOrHRManager_def hr_ctx_def hr_def)

theorem payroll_status_moves_forward_witness:
  "store_inv (example_store (Some draft)) \<and>
   getPayroll 1 (example_store (Some draft)) = Some (example_payroll (Some draft)) \<and>
   checkAdminOrHRManager hr_ctx = Inr hr \<and>
   fst (post_payrolls_approve hr_ctx 1 (example_store (Some draft))) =
     Inr (Some (example_payroll (Some draft)
                  \<lparr>p_status := Some approved, p_approvedBy := Some 7,
                    p_approvalDate := Some 1000\<rparr>)) \<and>
   post_payrolls_mark_paid hr_ctx 1 (example_store (Some draft)) =
     (Inl InvalidState, example_store (Some draft)) \<and>
   (\<exists>p1 p2. getPayroll 1 (run [(hr_ctx, Approve 1)] (example_store (Some draft))) = Some p1 \<and>
      getPayroll 1 (step (hr_ctx, MarkPaid 1)
                      (run [(hr_ctx, Approve 1)] (example_store (Some draft)))) = Some p2 \<and>
      status_rank (Some draft) \<le> status_rank (p_status p1) \<and>
      forward_move (p_status p1) (p_status p2))"
proof -
  have st: "p_status (example_payroll (Some draft)) = Some draft"
    by (simp add: example_payroll_def)
  have u: "u_id hr = 7" "now hr_ctx = 1000" by (simp_all add: hr_def hr_ctx_def)
  from payroll_status_moves_forward[OF example_store_inv example_getPayroll hr_allowed,
      of "Some draft" "[(hr_ctx, Approve 1)]" "(hr_ctx, MarkPaid 1)"]
  show ?thesis
    using example_store_inv example_getPayroll hr_allowed by (simp add: st u)
qed

text \<open>
  C10. A successful markPaid on an approved payroll stores and returns the payroll with
  \<open>status\<close> set to \<open>paid\<close> and every other field as it was, the approver and the approval
  date included.
\<close>

theorem mark_paid_changes_only_status:
  assumes "checkAdminOrHRManager c = Inr u" and "getPayroll i s = Some p"
    and "p_status p = Some approved"
  shows "\<exists>p'. fst (post_payrolls_mark_paid c i s) = Inr (Some p') \<and>
           getPayroll i (snd (post_payrolls_mark_paid c i s)) = Some p' \<and>
           p' = p\<lparr>p_status := Some paid\<rparr> \<and>
           p_status p' = Some paid \<and> p_id p' = p_id p \<and>
           p_employeeId p' = p_employeeId p \<and> p_payPeriodStart p' = p_payPeriodStart p \<and>
           p_payPeriodEnd p' = p_payPeriodEnd p \<and> p_processDate p' = p_processDate p \<and>
           p_basicSalary p' = p_basicSalary p \<and> p_totalEarnings p' = p_totalEarnings p \<and>
           p_totalDeductions p' = p_totalDeductions p \<and> p_netSalary p' = p_netSalary p \<and>
           p_approvedBy p' = p_approvedBy p \<and> p_approvalDate p' = p_approvalDate p"
  using post_mark_paid_approved[OF assms(2,3,1)] by simp

theorem mark_paid_changes_only_status_witness:
  "checkAdminOrHRManager hr_ctx = Inr hr \<and>
   getPayroll 1 (example_store (Some approved)) = Some (example_payroll (Some approved)) \<and>
   p_status (example_payroll (Some approved)) = Some approved \<and>
   (\<exists>p'. fst (post_payrolls_mark_paid hr_ctx 1 (example_store (Some approved))) = Inr (Some p') \<and>
      getPayroll 1 (snd (post_payrolls_mark_paid hr_ctx 1 (example_store (Some approved)))) = Some p' \<and>
      p_status p' = Some paid \<and> p_approvedBy p' = Some 7 \<and> p_approvalDate p' = Some 400)"
proof -
  have st: "p_status (example_payroll (Some approved)) = Some approved"
    by (simp add: example_payroll_def)
  have ap: "p_approvedBy (example_payroll (Some approved)) = Some 7"
    "p_approvalDate (example_payroll (Some approved)) = Some 400"
    by (simp_all add: example_payroll_def)
  from mark_paid_changes_only_status[OF hr_allowed example_getPayroll st]
  show ?thesis using hr_allowed example_getPayroll st ap by auto
qed


lemma createAuditLog_unavailable:
  "auditUnavailable c \<Longrightarrow> createAuditLog c u a t i d s = s"
  by (simp add: createAuditLog_def storage_createAuditLog_def)

lemma createAuditLog_available:
  "\<not> auditUnavailable c \<Longrightarrow>
   (createAuditLog c u a t i d s)\<lparr>auditLogs := auditLogs s,
      auditLogCurrentId := auditLogCurrentId s\<rparr> = s"
  by (simp add: createAuditLog_def storage_createAuditLog_def Let_def)

lemma createAuditLog_available_gen:
  "\<not> auditUnavailable c \<Longrightarrow> A = auditLogs s \<Longrightarrow> B = auditLogCurrentId s \<Longrightarrow>
   (createAuditLog c u a t i d s)\<lparr>auditLogs := A, auditLogCurrentId := B\<rparr> = s"
  by (simp add: createAuditLog_def storage_createAuditLog_def Let_def)

lemma ctx_flag_simps [simp]:
  "checkAdminOrHRManager (c\<lparr>auditUnavailable := b\<rparr>) = checkAdminOrHRManager c"
  "getCurrentSalaryStructure (c\<lparr>auditUnavailable := b\<rparr>) e s = getCurrentSalaryStructure c e s"
proof -
  have "isCurrent (c\<lparr>auditUnavailable := b\<rparr>) e = isCurrent c e"
    by (rule ext) (simp add: isCurrent_def split: option.splits)
  then show "getCurrentSalaryStructure (c\<lparr>auditUnavailable := b\<rparr>) e s =
      getCurrentSalaryStructure c e s"
    by (simp add: getCurrentSalaryStructure_def)
qed (simp add: checkAdminOrHRManager_def)

lemma audit_down_post_payrolls:
  "post_payrolls (c\<lparr>auditUnavailable := True\<rparr>) body s =
     (fst (post_payrolls (c\<lparr>auditUnavailable := False\<rparr>) body s),
      (snd (post_payrolls (c\<lparr>auditUnavailable := False\<rparr>) body s))
        \<lparr>auditLogs := auditLogs s, auditLogCurrentId := auditLogCurrentId s\<rparr>)"
  by (simp add: post_payrolls_def Let_def split_beta createAuditLog_unavailable
      createAuditLog_available_gen createPayroll_def
      split: sum.splits option.splits)

lemma audit_down_approve:
  "post_payrolls_approve (c\<lparr>auditUnavailable := True\<rparr>) i s =
     (fst (post_payrolls_approve (c\<lparr>auditUnavailable := False\<rparr>) i s),
      (snd (post_payrolls_approve (c\<lparr>auditUnavailable := False\<rparr>) i s))
        \<lparr>auditLogs := auditLogs s, auditLogCurrentId := auditLogCurrentId s\<rparr>)"
  by (simp add: post_payrolls_approve_def Let_def split_beta createAuditLog_unavailable
      createAuditLog_available_gen updatePayroll_def
      split: sum.splits option.splits)

lemma audit_down_mark_paid:
  "post_payrolls_mark_paid (c\<lparr>auditUnavailable := True\<rparr>) i s =
     (fst (post_payrolls_mark_paid (c\<lparr>auditUnavailable := False\<rparr>) i s),
      (snd (post_payrolls_mark_paid (c\<lparr>auditUnavailable := False\<rparr>) i s))
        \<lparr>auditLogs := auditLogs s, auditLogCurrentId := auditLogCurrentId s\<rparr>)"
  by (simp add: post_payrolls_mark_paid_def Let_def split_beta createAuditLog_unavailable
      createAuditLog_available_gen updatePayroll_def
      split: sum.splits option.splits)

lemma audit_down_salary:
  "post_salary_structures (c\<lparr>auditUnavailable := True\<rparr>) body s =
     (fst (post_salary_structures (c\<lparr>auditUnavailable := False\<rparr>) body s),
      (snd (post_salary_structures (c\<lparr>auditUnavailable := False\<rparr>) body s))
        \<lparr>auditLogs := auditLogs s, auditLogCurrentId := auditLogCurrentId s\<rparr>)"
  by (simp add: post_salary_structures_def Let_def split_beta createAuditLog_unavailable
      createAuditLog_available_gen createSalaryStructure_def updateSalaryStructure_def
      split: sum.splits option.splits)


text \<open>
  With the audit store down, each of the four handlers answers what it answers with the
  store up and leaves the same store, apart from the audit entry.
\<close>

lemma audit_down_same_as_up:
  "post_payrolls (c\<lparr>auditUnavailable := True\<rparr>) pbody s =
     (fst (post_payrolls (c\<lparr>auditUnavailable := False\<rparr>) pbody s),
      (snd (post_payrolls (c\<lparr>auditUnavailable := False\<rparr>) pbody s))
        \<lparr>auditLogs := auditLogs s, auditLogCurrentId := auditLogCurrentId s\<rparr>) \<and>
   post_payrolls_approve (c\<lparr>auditUnavailable := True\<rparr>) i s =
     (fst (post_payrolls_approve (c\<lparr>auditUnavailable := False\<rparr>) i s),
      (snd (post_payrolls_approve (c\<lparr>auditUnavailable := False\<rparr>) i s))
        \<lparr>auditLogs := auditLogs s, auditLogCurrentId := auditLogCurrentId s\<rparr>) \<and>
   post_payrolls_mark_paid (c\<lparr>auditUnavailable := True\<rparr>) i s =
     (fst (post_payrolls_mark_paid (c\<lparr>auditUnavailable := False\<rparr>) i s),
      (snd (post_payrolls_mark_paid (c\<lparr>auditUnavailable := False\<rparr>) i s))
        \<lparr>auditLogs := auditLogs s, auditLogCurrentId := auditLogCurrentId s\<rparr>) \<and>
   post_salary_structures (c\<lparr>auditUnavailable := True\<rparr>) sbody s =
     (fst (post_salary_structures (c\<lparr>auditUnavailable := False\<rparr>) sbody s),
      (snd (post_salary_structures (c\<lparr>auditUnavailable := False\<rparr>) sbody s))
        \<lparr>auditLogs := auditLogs s, auditLogCurrentId := auditLogCurrentId s\<rparr>)"
  using audit_down_post_payrolls audit_down_approve audit_down_mark_paid audit_down_salary
  by blast

lemma audit_down_approve_example:
  "fst (post_payrolls_approve (hr_ctx\<lparr>auditUnavailable := True\<rparr>) 1 (example_store (Some draft))) =
     Inr (Some (example_payroll (Some draft)
                  \<lparr>p_status := Some approved, p_approvedBy := Some 7,
                    p_approvalDate := Some 1000\<rparr>)) \<and>
   auditLogs (snd (post_payrolls_approve (hr_ctx\<lparr>auditUnavailable := True\<rparr>) 1
                     (example_store (Some draft)))) = []"
proof -
  have auth: "checkAdminOrHRManager (hr_ctx\<lparr>auditUnavailable := True\<rparr>) = Inr hr"
    by (simp add: hr_allowed)
  have st: "p_status (example_payroll (Some draft)) = Some draft"
    by (simp add: example_payroll_def)
  have "auditLogs (snd (post_payrolls_approve (hr_ctx\<lparr>auditUnavailable := True\<rparr>) 1
                     (example_store (Some draft)))) = auditLogs (example_store (Some draft))"
    by (subst audit_down_approve) simp
  with post_approve_draft[OF example_getPayroll st auth] show ?thesis
    by (simp add: hr_def hr_ctx_def example_store_def)
qed

lemma check_role_known:
  assumes "req_user c = Some user"
  shows "get_check_role c (role_name required) =
           Inr (role_rank required \<le> role_rank (u_role user))"
  using assms
  by (cases required; cases "u_role user")
     (simp_all add: get_check_role_def roleHierarchy_def role_name_def role_rank_def)

lemma check_role_unknown:
  assumes "req_user c = Some user" "role \<notin> range role_name"
    "role \<notin> set Object_prototype_keys"
  shows "get_check_role c role = Inl ValidationError"
proof -
  from assms(2) have "role \<noteq> role_name administrator" "role \<noteq> role_name hr_manager"
    "role \<noteq> role_name hr_staff" "role \<noteq> role_name employee" by blast+
  then have "roleHierarchy role = Undefined"
    using assms(3) by (simp add: roleHierarchy_def role_name_def)
  then show ?thesis using assms(1) by (simp add: get_check_role_def)
qed

text \<open>
  C6. The failing input: for the required role \<^verbatim>\<open>toString\<close>, which is none of the four
  roles, the check answers \<^verbatim>\<open>{ hasAccess: false }\<close> instead of the error "Invalid role".
\<close>

theorem check_role_inherited_key:
  "''toString'' \<notin> range role_name \<and> get_check_role hr_ctx ''toString'' = Inr False"
proof -
  have "\<And>r. role_name r \<noteq> ''toString''"
    by (case_tac r) (simp_all add: role_name_def)
  then have "''toString'' \<notin> range role_name" by (metis rangeE)
  moreover have "get_check_role hr_ctx ''toString'' = Inr False"
    by (simp add: get_check_role_def hr_ctx_def hr_def roleHierarchy_def
        Object_prototype_keys_def role_name_def)
  ultimately show ?thesis by simp
qed


lemma parse_payroll_no_basic:
  "pb_basicSalary body = None \<Longrightarrow> insertPayrollSchema_parse body = None"
  by (simp add: insertPayrollSchema_parse_def split: option.splits body_date.splits)

lemma post_payrolls_invalid:
  assumes "checkAdminOrHRManager c = Inr u" "insertPayrollSchema_parse body = None"
  shows "post_payrolls c body s = (Inl ValidationError, s)"
  using assms by (simp add: post_payrolls_def)

lemma post_payrolls_ignores_salary:
  "fst (post_payrolls c body (s\<lparr>salaryStructures := x\<rparr>)) = fst (post_payrolls c body s)"
  by (simp add: post_payrolls_def Let_def split_beta getEmployee_def createPayroll_def
      split: sum.splits option.splits)

lemma post_payrolls_failure_unchanged:
  "fst (post_payrolls c body s) = Inl e \<Longrightarrow> snd (post_payrolls c body s) = s"
  by (auto simp: post_payrolls_def Let_def split_beta split: sum.splits option.splits)

text \<open>
  C5, as amended. Create never consults the salary structures: the basic salary is a
  required field of the request. Without a basic salary in the request an authorised
  create answers \<open>ValidationError\<close>, whatever salary structures the employee has; the
  answer to a request is the same whatever salary structures are stored; and a create
  that fails leaves the store as it is, so it stores no payroll.
\<close>

theorem create_never_consults_salary_structures:
  assumes "checkAdminOrHRManager c = Inr u"
  shows "(pb_basicSalary body = None \<longrightarrow> post_payrolls c body s = (Inl ValidationError, s)) \<and>
         fst (post_payrolls c body (s\<lparr>salaryStructures := x\<rparr>)) = fst (post_payrolls c body s) \<and>
         (\<forall>e. fst (post_payrolls c body s) = Inl e \<longrightarrow> snd (post_payrolls c body s) = s)"
  using post_payrolls_invalid[OF assms] parse_payroll_no_basic post_payrolls_ignores_salary
    post_payrolls_failure_unchanged
  by blast

lemma example_getEmployee: "getEmployee 1 (example_store st) = Some alice"
  by (simp add: getEmployee_def example_store_def)

lemma example_no_structure: "getCurrentSalaryStructure c 1 (example_store st) = None"
  by (simp add: getCurrentSalaryStructure_def example_store_def)


theorem create_without_basic_salary_counterexample:
  "getEmployee 1 (example_store None) = Some alice \<and>
   getCurrentSalaryStructure hr_ctx 1 (example_store None) = None \<and>
   pb_basicSalary (example_body None 0) = None \<and>
   fst (post_payrolls hr_ctx (example_body None 0) (example_store None)) = Inl ValidationError \<and>
   fst (post_payrolls hr_ctx (example_body None 0) (example_store None)) \<noteq> Inl NotFound"
proof -
  have "insertPayrollSchema_parse (example_body None 0) = None"
    by (simp add: insertPayrollSchema_parse_def example_body_def)
  from post_payrolls_invalid[OF hr_allowed this]
  show ?thesis
    by (simp add: example_getEmployee example_no_structure example_body_def
        del: One_nat_def)
qed


lemma post_items_invalid:
  assumes "checkAdminOrHRManager c = Inr u" "insertPayrollItemSchema_parse body = None"
  shows "post_payroll_items c body s = (Inl ValidationError, s)"
  using assms by (simp add: post_payroll_items_def)

lemma post_items_not_draft:
  assumes "checkAdminOrHRManager c = Inr u" "insertPayrollItemSchema_parse body = Some d"
    "getPayroll (ii_payrollId d) s = Some p" "p_status p \<noteq> Some draft"
  shows "post_payroll_items c body s = (Inl InvalidState, s)"
  using assms by (simp add: post_payroll_items_def)

lemma post_items_draft:
  assumes "checkAdminOrHRManager c = Inr u" "insertPayrollItemSchema_parse body = Some d"
    "getPayroll (ii_payrollId d) s = Some p" "p_status p = Some draft"
  shows "post_payroll_items c body s =
           (Inr (fst (createPayrollItem d s)),
            snd (updatePayroll (p_id p)
                   (\<lambda>q. q\<lparr>p_totalEarnings :=
                              fst (sumItems (getPayrollItemsByPayroll (p_id p)
                                               (snd (createPayrollItem d s)))),
                            p_totalDeductions :=
                              snd (sumItems (getPayrollItemsByPayroll (p_id p)
                                               (snd (createPayrollItem d s)))),
                            p_netSalary :=
                              js_sub (js_add (Number (p_basicSalary p))
                                        (fst (sumItems (getPayrollItemsByPayroll (p_id p)
                                                          (snd (createPayrollItem d s))))))
                                (snd (sumItems (getPayrollItemsByPayroll (p_id p)
                                                  (snd (createPayrollItem d s)))))\<rparr>)
                   (snd (createPayrollItem d s))))"
  using assms by (simp add: post_payroll_items_def Let_def split_beta)

lemma post_items_InrD:
  assumes "post_payroll_items c body s = (Inr item, s')"
  shows "\<exists>u d p. checkAdminOrHRManager c = Inr u \<and> insertPayrollItemSchema_parse body = Some d \<and>
           getPayroll (ii_payrollId d) s = Some p \<and> p_status p = Some draft"
  using assms
  by (auto simp: post_payroll_items_def Let_def split_beta
      split: sum.splits option.splits if_splits)

lemma getPayrollItems_updatePayroll [simp]:
  "getPayrollItemsByPayroll i (snd (updatePayroll j f s)) = getPayrollItemsByPayroll i s"
  by (simp add: getPayrollItemsByPayroll_def)

lemma sumItems_acc:
  "foldl (\<lambda>(totalEarnings, totalDeductions) item.
              if pi_itemType item = earning
              then (js_add totalEarnings (Number (pi_amount item)), totalDeductions)
              else (totalEarnings, js_add totalDeductions (Number (pi_amount item))))
           (a, b) xs =
   (foldl js_add a (map (\<lambda>x. Number (pi_amount x)) (filter (\<lambda>x. pi_itemType x = earning) xs)),
    foldl js_add b (map (\<lambda>x. Number (pi_amount x)) (filter (\<lambda>x. pi_itemType x = deduction) xs)))"
proof (induction xs arbitrary: a b)
  case Nil
  then show ?case by simp
next
  case (Cons x xs)
  then show ?case by (cases "pi_itemType x") simp_all
qed

lemma sumItems_folds:
  "sumItems xs =
   (foldl js_add 0 (map (\<lambda>x. Number (pi_amount x)) (filter (\<lambda>x. pi_itemType x = earning) xs)),
    foldl js_add 0 (map (\<lambda>x. Number (pi_amount x)) (filter (\<lambda>x. pi_itemType x = deduction) xs)))"
  unfolding sumItems_def by (rule sumItems_acc)

lemma createPayrollItem_item:
  "pi_payrollId (fst (createPayrollItem d s)) = ii_payrollId d"
  "pi_id (fst (createPayrollItem d s)) = payrollItemCurrentId s"
  "pi_amount (fst (createPayrollItem d s)) = ii_amount d"
  "pi_itemType (fst (createPayrollItem d s)) = ii_itemType d"
  "pi_itemName (fst (createPayrollItem d s)) = ii_itemName d"
  by (simp_all add: createPayrollItem_def Let_def)

lemma update_fresh: "k \<notin> fst ` set al \<Longrightarrow> AList.update k v al = al @ [(k, v)]"
  by (induction al) auto

lemma items_fresh:
  assumes "store_inv s"
  shows "payrollItemCurrentId s \<notin> fst ` set (payrollItems s)"
  using assms by (auto simp: store_inv_def list_all_iff)

lemma payrollItems_create:
  assumes "store_inv s"
  shows "payrollItems (snd (createPayrollItem d s)) =
           payrollItems s @ [(payrollItemCurrentId s, fst (createPayrollItem d s))]"
  using update_fresh[OF items_fresh[OF assms]]
  by (simp add: createPayrollItem_def Let_def)

lemma getPayrollItems_create:
  assumes "store_inv s"
  shows "getPayrollItemsByPayroll i (snd (createPayrollItem d s)) =
           getPayrollItemsByPayroll i s @ (if ii_payrollId d = i then [fst (createPayrollItem d s)] else [])"
  by (simp add: getPayrollItemsByPayroll_def payrollItems_create[OF assms] createPayrollItem_item)


lemma post_payrolls_items_kept [simp]:
  "payrollItems (snd (post_payrolls c body s)) = payrollItems s"
  by (simp add: post_payrolls_def Let_def split_beta createPayroll_def
      split: sum.splits option.splits)

lemma totals_after_addItem:
  assumes "store_inv s" and "post_payroll_items c body s = (Inr item, s')"
  shows "\<exists>p'. getPayroll (pi_payrollId item) s' = Some p' \<and>
           item \<in> set (getPayrollItemsByPayroll (pi_payrollId item) s') \<and>
           p_totalEarnings p' =
             foldl js_add 0 (map (\<lambda>x. Number (pi_amount x))
               (filter (\<lambda>x. pi_itemType x = earning)
                  (getPayrollItemsByPayroll (pi_payrollId item) s'))) \<and>
           p_totalDeductions p' =
             foldl js_add 0 (map (\<lambda>x. Number (pi_amount x))
               (filter (\<lambda>x. pi_itemType x = deduction)
                  (getPayrollItemsByPayroll (pi_payrollId item) s'))) \<and>
           p_netSalary p' =
             js_sub (js_add (Number (p_basicSalary p')) (p_totalEarnings p'))
               (p_totalDeductions p')"
proof -
  from post_items_InrD[OF assms(2)] obtain u d p where
    h: "checkAdminOrHRManager c = Inr u" "insertPayrollItemSchema_parse body = Some d"
       "getPayroll (ii_payrollId d) s = Some p" "p_status p = Some draft" by blast
  from getPayroll_lt[OF assms(1) h(3)] have pid: "p_id p = ii_payrollId d" by simp
  from post_items_draft[OF h] assms(2) pid
  have item: "item = fst (createPayrollItem d s)"
    and s': "s' = snd (updatePayroll (ii_payrollId d)
                   (\<lambda>q. q\<lparr>p_totalEarnings :=
                              fst (sumItems (getPayrollItemsByPayroll (ii_payrollId d)
                                               (snd (createPayrollItem d s)))),
                            p_totalDeductions :=
                              snd (sumItems (getPayrollItemsByPayroll (ii_payrollId d)
                                               (snd (createPayrollItem d s)))),
                            p_netSalary :=
                              js_sub (js_add (Number (p_basicSalary p))
                                        (fst (sumItems (getPayrollItemsByPayroll (ii_payrollId d)
                                                          (snd (createPayrollItem d s))))))
                                (snd (sumItems (getPayrollItemsByPayroll (ii_payrollId d)
                                                  (snd (createPayrollItem d s)))))\<rparr>)
                   (snd (createPayrollItem d s)))"
    by simp_all
  have own: "pi_payrollId item = ii_payrollId d"
    by (simp add: item createPayrollItem_item)
  show ?thesis
    unfolding own
    by (simp add: s' getPayroll_updatePayroll h(3) sumItems_folds
        getPayrollItems_create[OF assms(1)] item)
qed

lemma fp_examples:
  "Number 500 = 500" "js_add 0 500 = 500" "Number 5000 = 5000" "js_add 5000 500 = 5500"
  "js_sub 5500 0 = 5500"
  by code_simp+

lemma example_item_parse:
  "insertPayrollItemSchema_parse (example_item ty nm am) =
     Some \<lparr>ii_payrollId = 1, ii_itemType = ty, ii_itemName = nm, ii_amount = am,
           ii_description = None\<rparr>"
  by (simp add: insertPayrollItemSchema_parse_def example_item_def)

lemma example_addItem:
  "post_payroll_items hr_ctx (example_item ty nm am) (example_store (Some draft)) =
     (Inr \<lparr>pi_id = 1, pi_payrollId = 1, pi_itemType = ty, pi_itemName = nm, pi_amount = am,
            pi_description = None\<rparr>,
      snd (post_payroll_items hr_ctx (example_item ty nm am) (example_store (Some draft)))) \<and>
   getPayrollItemsByPayroll 1
     (snd (post_payroll_items hr_ctx (example_item ty nm am) (example_store (Some draft)))) =
     [\<lparr>pi_id = 1, pi_payrollId = 1, pi_itemType = ty, pi_itemName = nm, pi_amount = am,
       pi_description = None\<rparr>]"
proof -
  let ?d = "\<lparr>ii_payrollId = 1, ii_itemType = ty, ii_itemName = nm, ii_amount = am,
           ii_description = None\<rparr>"
  have st: "p_status (example_payroll (Some draft)) = Some draft"
    by (simp add: example_payroll_def)
  have gp: "getPayroll (ii_payrollId ?d) (example_store (Some draft)) =
      Some (example_payroll (Some draft))"
    by (simp add: example_getPayroll del: One_nat_def)
  have it: "fst (createPayrollItem ?d (example_store (Some draft))) =
      \<lparr>pi_id = 1, pi_payrollId = 1, pi_itemType = ty, pi_itemName = nm, pi_amount = am,
            pi_description = None\<rparr>"
    by (simp add: createPayrollItem_def Let_def example_store_def)
  have its: "getPayrollItemsByPayroll 1 (example_store (Some draft)) = []"
    by (simp add: getPayrollItemsByPayroll_def example_store_def)
  note d = post_items_draft[OF hr_allowed example_item_parse gp st]
  show ?thesis
    by (simp add: d it its getPayrollItems_create[OF example_store_inv] del: One_nat_def)
qed

text \<open>
  C3. The failing input: on a draft payroll, an item with the amount \<open>-5\<close> and the empty
  name is answered with 201 and stored, where the claim has a \<open>ValidationError\<close>.
\<close>

theorem negative_amount_empty_name_accepted:
  "fst (post_payroll_items hr_ctx (example_item deduction '''' (- 5))
          (example_store (Some draft))) =
     Inr \<lparr>pi_id = 1, pi_payrollId = 1, pi_itemType = deduction, pi_itemName = '''',
           pi_amount = - 5, pi_description = None\<rparr> \<and>
   getPayrollItemsByPayroll 1
     (snd (post_payroll_items hr_ctx (example_item deduction '''' (- 5))
             (example_store (Some draft)))) =
     [\<lparr>pi_id = 1, pi_payrollId = 1, pi_itemType = deduction, pi_itemName = '''',
       pi_amount = - 5, pi_description = None\<rparr>]"
  using example_addItem[of deduction "''''" "- 5"] by (metis fst_conv)

lemma hd_insort_key:
  "hd (insort_key f x ys) = (if ys = [] \<or> f x \<le> f (hd ys) then x else hd ys)"
  by (cases ys) auto

lemma sort_key_Nil_iff: "sort_key f xs = [] \<longleftrightarrow> xs = []"
  by (metis set_sort set_empty)

lemma hd_sort_key_first_min:
  assumes "xs \<noteq> []"
  shows "\<exists>pre post. xs = pre @ hd (sort_key f xs) # post \<and>
           (\<forall>y\<in>set pre. f (hd (sort_key f xs)) < f y) \<and>
           (\<forall>y\<in>set post. f (hd (sort_key f xs)) \<le> f y)"
  using assms
proof (induction xs)
  case Nil
  then show ?case by simp
next
  case (Cons x xs)
  show ?case
  proof (cases "xs = []")
    case True
    then show ?thesis by (intro exI[of _ "[]"]) simp
  next
    case False
    let ?h = "hd (sort_key f xs)"
    from Cons.IH[OF False] obtain pre post where
      split: "xs = pre @ ?h # post" "\<forall>y\<in>set pre. f ?h < f y" "\<forall>y\<in>set post. f ?h \<le> f y"
      by blast
    have ne: "sort_key f xs \<noteq> []" using False by (simp add: sort_key_Nil_iff)
    have all: "\<forall>y\<in>set xs. f ?h \<le> f y"
    proof
      fix y assume "y \<in> set xs"
      then have "y \<in> set pre \<or> y = ?h \<or> y \<in> set post"
        by (subst (asm) split(1)) auto
      with split(2,3) show "f ?h \<le> f y" by auto
    qed
    show ?thesis
    proof (cases "f x \<le> f ?h")
      case True
      then have "hd (sort_key f (x # xs)) = x" by (simp add: hd_insort_key)
      moreover from True all have "\<forall>y\<in>set xs. f x \<le> f y" by auto
      ultimately show ?thesis by (intro exI[of _ "[]"] exI[of _ xs]) simp
    next
      case False
      then have h: "hd (sort_key f (x # xs)) = ?h" using ne by (simp add: hd_insort_key)
      have "x # xs = (x # pre) @ ?h # post" using split(1) by simp
      moreover have "\<forall>y\<in>set (x # pre). f ?h < f y" using False split(2) by auto
      ultimately show ?thesis unfolding h using split(3) by blast
    qed
  qed
qed

lemma getCurrent_None_iff:
  "getCurrentSalaryStructure c e s = None \<longleftrightarrow>
     filter (isCurrent c e) (map snd (salaryStructures s)) = []"
proof -
  have "getCurrentSalaryStructure c e s = None \<longleftrightarrow>
     sort_key (\<lambda>a. - ss_effectiveFrom a)
        (filter (isCurrent c e) (map snd (salaryStructures s))) = []"
    by (simp add: getCurrentSalaryStructure_def split: list.splits)
  then show ?thesis by (simp only: sort_key_Nil_iff)
qed

lemma getCurrent_Some_hd:
  assumes "getCurrentSalaryStructure c e s = Some x"
  shows "filter (isCurrent c e) (map snd (salaryStructures s)) \<noteq> [] \<and>
         x = hd (sort_key (\<lambda>a. - ss_effectiveFrom a)
                   (filter (isCurrent c e) (map snd (salaryStructures s))))"
proof -
  from assms have "getCurrentSalaryStructure c e s \<noteq> None" by simp
  then have "filter (isCurrent c e) (map snd (salaryStructures s)) \<noteq> []"
    by (simp only: getCurrent_None_iff not_False_eq_True)
  moreover from assms
  have "x = hd (sort_key (\<lambda>a. - ss_effectiveFrom a)
                   (filter (isCurrent c e) (map snd (salaryStructures s))))"
    by (auto simp: getCurrentSalaryStructure_def split: list.splits)
  ultimately show ?thesis by simp
qed

lemma getCurrent_Some_split:
  assumes "getCurrentSalaryStructure c e s = Some x"
  shows "\<exists>pre post. filter (isCurrent c e) (map snd (salaryStructures s)) = pre @ x # post \<and>
           (\<forall>y\<in>set pre. ss_effectiveFrom y < ss_effectiveFrom x) \<and>
           (\<forall>y\<in>set post. ss_effectiveFrom y \<le> ss_effectiveFrom x)"
proof -
  from getCurrent_Some_hd[OF assms] have
    ne: "filter (isCurrent c e) (map snd (salaryStructures s)) \<noteq> []" and
    x: "x = hd (sort_key (\<lambda>a. - ss_effectiveFrom a)
                   (filter (isCurrent c e) (map snd (salaryStructures s))))" by simp_all
  from hd_sort_key_first_min[OF ne, of "\<lambda>a. - ss_effectiveFrom a"] show ?thesis
    unfolding x[symmetric] by simp
qed

text \<open>
  C7, as amended. \<^verbatim>\<open>getCurrentSalaryStructure\<close> answers \<^verbatim>\<open>undefined\<close> (404 in the route)
  exactly when no structure of the employee is active with \<open>effectiveFrom \<le> now\<close> and
  \<open>effectiveTo\<close> unset or \<open>\<ge> now\<close>. Otherwise it answers a qualifying structure with the
  latest \<open>effectiveFrom\<close>; among several with that same \<open>effectiveFrom\<close> it is the one
  that comes first in the map, which is the one created first.
\<close>

theorem current_structure_selection:
  "(getCurrentSalaryStructure c e s = None \<longleftrightarrow>
      filter (isCurrent c e) (map snd (salaryStructures s)) = []) \<and>
   (\<forall>x. getCurrentSalaryStructure c e s = Some x \<longrightarrow>
      isCurrent c e x \<and>
      (\<exists>pre post. filter (isCurrent c e) (map snd (salaryStructures s)) = pre @ x # post \<and>
         (\<forall>y\<in>set pre. ss_effectiveFrom y < ss_effectiveFrom x) \<and>
         (\<forall>y\<in>set post. ss_effectiveFrom y \<le> ss_effectiveFrom x)))"
proof (intro conjI allI impI)
  show "getCurrentSalaryStructure c e s = None \<longleftrightarrow>
      filter (isCurrent c e) (map snd (salaryStructures s)) = []"
    by (rule getCurrent_None_iff)
next
  fix x assume x: "getCurrentSalaryStructure c e s = Some x"
  from getCurrent_Some_split[OF x] obtain pre post where
    sp: "filter (isCurrent c e) (map snd (salaryStructures s)) = pre @ x # post"
        "\<forall>y\<in>set pre. ss_effectiveFrom y < ss_effectiveFrom x"
        "\<forall>y\<in>set post. ss_effectiveFrom y \<le> ss_effectiveFrom x" by blast
  from sp(1) have "x \<in> set (filter (isCurrent c e) (map snd (salaryStructures s)))" by simp
  then show "isCurrent c e x" by simp
  from sp show "\<exists>pre post. filter (isCurrent c e) (map snd (salaryStructures s)) = pre @ x # post \<and>
         (\<forall>y\<in>set pre. ss_effectiveFrom y < ss_effectiveFrom x) \<and>
         (\<forall>y\<in>set post. ss_effectiveFrom y \<le> ss_effectiveFrom x)" by blast
qed

lemma parse_salary_fields:
  "insertSalaryStructureSchema_parse body = Some d \<Longrightarrow>
   sb_employeeId body = Some (is_employeeId d) \<and> sb_effectiveFrom body = Some (is_effectiveFrom d) \<and>
   sb_effectiveTo body = is_effectiveTo d \<and> sb_status body = is_status d"
  by (auto simp: insertSalaryStructureSchema_parse_def split: option.splits)

lemma post_salary_ok:
  assumes "checkAdminOrHRManager c = Inr u" "insertSalaryStructureSchema_parse body = Some d"
    "getEmployee (is_employeeId d) s = Some e"
  shows "fst (post_salary_structures c body s) =
           Inr (fst (createSalaryStructure d
             (if is_status d = Some True then
                (case getCurrentSalaryStructure c (is_employeeId d) s of
                   None \<Rightarrow> s
                 | Some currentSalary \<Rightarrow>
                     snd (updateSalaryStructure (ss_id currentSalary)
                            (\<lambda>x. x\<lparr>ss_status := Some False,
                                   ss_effectiveTo := Some (is_effectiveFrom d)\<rparr>) s))
              else s)))"
    and "salaryStructures (snd (post_salary_structures c body s)) =
           salaryStructures (snd (createSalaryStructure d
             (if is_status d = Some True then
                (case getCurrentSalaryStructure c (is_employeeId d) s of
                   None \<Rightarrow> s
                 | Some currentSalary \<Rightarrow>
                     snd (updateSalaryStructure (ss_id currentSalary)
                            (\<lambda>x. x\<lparr>ss_status := Some False,
                                   ss_effectiveTo := Some (is_effectiveFrom d)\<rparr>) s))
              else s)))"
    and "salaryStructureCurrentId (snd (post_salary_structures c body s)) =
           salaryStructureCurrentId s + 1"
    and "employees (snd (post_salary_structures c body s)) = employees s"
  using assms
  by (simp_all add: post_salary_structures_def Let_def split_beta split: option.splits)

lemma example_salary_parse:
  "insertSalaryStructureSchema_parse (example_salary_body ef) =
     Some \<lparr>is_employeeId = 1, is_basicSalary = 5000, is_houseRentAllowance = None,
           is_conveyanceAllowance = None, is_medicalAllowance = None,
           is_specialAllowance = None, is_effectiveFrom = ef, is_effectiveTo = None,
           is_status = Some True\<rparr>"
  by (simp add: insertSalaryStructureSchema_parse_def example_salary_body_def)

lemma early_allowed: "checkAdminOrHRManager early_ctx = Inr hr"
  by (simp add: checkAdminOrHRManager_def early_ctx_def hr_def)

lemma one_structure_store_values:
  "salaryStructures one_structure_store = [(1, example_structure 1 500 None True)]"
  "salaryStructureCurrentId one_structure_store = 2"
  "employees one_structure_store = [(1, alice)]"
proof -
  let ?d = "\<lparr>is_employeeId = 1, is_basicSalary = 5000, is_houseRentAllowance = None,
           is_conveyanceAllowance = None, is_medicalAllowance = None,
           is_specialAllowance = None, is_effectiveFrom = 500, is_effectiveTo = None,
           is_status = Some True\<rparr>"
  have e: "getEmployee (is_employeeId ?d) (example_store None) = Some alice"
    by (simp add: example_getEmployee del: One_nat_def)
  note ok = post_salary_ok[OF hr_allowed example_salary_parse e]
  show "salaryStructures one_structure_store = [(1, example_structure 1 500 None True)]"
    unfolding one_structure_store_def run_def
    by (simp add: ok(2) example_no_structure del: One_nat_def)
       (simp add: createSalaryStructure_def Let_def example_store_def example_structure_def)
  show "salaryStructureCurrentId one_structure_store = 2"
    unfolding one_structure_store_def run_def
    by (simp add: ok(3)) (simp add: example_store_def)
  show "employees one_structure_store = [(1, alice)]"
    unfolding one_structure_store_def run_def
    by (simp add: ok(4)) (simp add: example_store_def)
qed

lemma first_structure:
  assumes "checkAdminOrHRManager c = Inr u"
  shows "salaryStructures (snd (post_salary_structures c (example_salary_body ef) (example_store None))) =
           [(1, example_structure 1 ef None True)]"
    and "salaryStructureCurrentId
           (snd (post_salary_structures c (example_salary_body ef) (example_store None))) = 2"
    and "employees (snd (post_salary_structures c (example_salary_body ef) (example_store None))) =
           [(1, alice)]"
proof -
  let ?d = "\<lparr>is_employeeId = 1, is_basicSalary = 5000, is_houseRentAllowance = None,
           is_conveyanceAllowance = None, is_medicalAllowance = None,
           is_specialAllowance = None, is_effectiveFrom = ef, is_effectiveTo = None,
           is_status = Some True\<rparr>"
  have e: "getEmployee (is_employeeId ?d) (example_store None) = Some alice"
    by (simp add: example_getEmployee del: One_nat_def)
  note ok = post_salary_ok[OF assms example_salary_parse e]
  show "salaryStructures (snd (post_salary_structures c (example_salary_body ef) (example_store None))) =
           [(1, example_structure 1 ef None True)]"
    by (simp add: ok(2) example_no_structure del: One_nat_def)
       (simp add: createSalaryStructure_def Let_def example_store_def example_structure_def)
  show "salaryStructureCurrentId
           (snd (post_salary_structures c (example_salary_body ef) (example_store None))) = 2"
    by (simp add: ok(3)) (simp add: example_store_def)
  show "employees (snd (post_salary_structures c (example_salary_body ef) (example_store None))) =
           [(1, alice)]"
    by (simp add: ok(4)) (simp add: example_store_def)
qed

lemma tie_store_values:
  "map snd (salaryStructures tie_store) =
     [example_structure 1 500 None True, example_structure 2 500 None True]"
proof -
  let ?s1 = "snd (post_salary_structures early_ctx (example_salary_body 500) (example_store None))"
  let ?d = "\<lparr>is_employeeId = 1, is_basicSalary = 5000, is_houseRentAllowance = None,
           is_conveyanceAllowance = None, is_medicalAllowance = None,
           is_specialAllowance = None, is_effectiveFrom = 500, is_effectiveTo = None,
           is_status = Some True\<rparr>"
  note s1 = first_structure[OF early_allowed, of 500]
  have e: "getEmployee (is_employeeId ?d) ?s1 = Some alice"
    by (simp add: getEmployee_def s1(3))
  have cur: "getCurrentSalaryStructure early_ctx (is_employeeId ?d) ?s1 = None"
    unfolding getCurrentSalaryStructure_def s1(1)
    by (simp add: isCurrent_def example_structure_def early_ctx_def)
  note ok = post_salary_ok[OF early_allowed example_salary_parse e]
  have "salaryStructures tie_store = salaryStructures (snd (createSalaryStructure ?d ?s1))"
    unfolding tie_store_def run_def using ok(2) cur by (simp del: One_nat_def)
  also have "\<dots> = [(1, example_structure 1 500 None True), (2, example_structure 2 500 None True)]"
    by (simp add: createSalaryStructure_def Let_def s1(1,2) example_structure_def)
  finally show ?thesis by simp
qed

theorem tie_selects_first_created_counterexample:
  "map snd (salaryStructures tie_store) =
     [example_structure 1 500 None True, example_structure 2 500 None True] \<and>
   isCurrent hr_ctx 1 (example_structure 1 500 None True) \<and>
   isCurrent hr_ctx 1 (example_structure 2 500 None True) \<and>
   getCurrentSalaryStructure hr_ctx 1 tie_store = Some (example_structure 1 500 None True) \<and>
   getCurrentSalaryStructure hr_ctx 1 tie_store \<noteq> Some (example_structure 2 500 None True)"
proof -
  have c: "isCurrent hr_ctx 1 (example_structure 1 500 None True)"
    "isCurrent hr_ctx 1 (example_structure 2 500 None True)"
    by (simp_all add: isCurrent_def example_structure_def hr_ctx_def)
  have "getCurrentSalaryStructure hr_ctx 1 tie_store = Some (example_structure 1 500 None True)"
    using c by (simp add: getCurrentSalaryStructure_def tie_store_values del: One_nat_def)
      (simp add: example_structure_def)
  with c tie_store_values show ?thesis by (simp add: example_structure_def)
qed

theorem current_structure_selection_witness:
  "getCurrentSalaryStructure hr_ctx 1 tie_store = Some (example_structure 1 500 None True) \<and>
   isCurrent hr_ctx 1 (example_structure 1 500 None True) \<and>
   (\<exists>pre post. filter (isCurrent hr_ctx 1) (map snd (salaryStructures tie_store)) =
        pre @ example_structure 1 500 None True # post \<and>
      (\<forall>y\<in>set pre. ss_effectiveFrom y < ss_effectiveFrom (example_structure 1 500 None True)) \<and>
      (\<forall>y\<in>set post. ss_effectiveFrom y \<le> ss_effectiveFrom (example_structure 1 500 None True)))"
proof -
  have c: "isCurrent hr_ctx 1 (example_structure 1 500 None True)"
    "isCurrent hr_ctx 1 (example_structure 2 500 None True)"
    by (simp_all add: isCurrent_def example_structure_def hr_ctx_def)
  have g: "getCurrentSalaryStructure hr_ctx 1 tie_store = Some (example_structure 1 500 None True)"
    using c by (simp add: getCurrentSalaryStructure_def tie_store_values del: One_nat_def)
      (simp add: example_structure_def)
  from current_structure_selection[of hr_ctx 1 tie_store] g show ?thesis by blast
qed

lemma update_existing:
  "distinct (map fst al) \<Longrightarrow> k \<in> fst ` set al \<Longrightarrow>
   AList.update k v al = map (\<lambda>p. if fst p = k then (k, v) else p) al"
proof (induction al)
  case Nil
  then show ?case by simp
next
  case (Cons p al)
  show ?case
  proof (cases "fst p = k")
    case True
    from Cons.prems(1) have "fst p \<notin> fst ` set al" by simp
    with True have "\<forall>q\<in>set al. fst q \<noteq> k" by (metis imageI)
    then have "map (\<lambda>p. if fst p = k then (k, v) else p) al = al"
      by (induction al) auto
    with True show ?thesis by simp
  next
    case False
    with Cons show ?thesis by auto
  qed
qed

lemma filter_replaced:
  assumes "\<forall>p\<in>set al. ss_id (snd p) = fst p" "\<not> P v"
  shows "filter P (map snd (map (\<lambda>p. if fst p = k then (k, v) else p) al)) =
         filter (\<lambda>x. P x \<and> ss_id x \<noteq> k) (map snd al)"
  using assms by (induction al) auto

lemma salary_entries:
  assumes "store_inv s"
  shows "distinct (map fst (salaryStructures s))"
    and "\<forall>p\<in>set (salaryStructures s). ss_id (snd p) = fst p \<and> fst p < salaryStructureCurrentId s"
  using assms by (auto simp: store_inv_def list_all_iff)

lemma getSalaryStructure_of_value:
  assumes "store_inv s" "x \<in> set (map snd (salaryStructures s))"
  shows "getSalaryStructure (ss_id x) s = Some x"
proof -
  from assms(2) obtain k where k: "(k, x) \<in> set (salaryStructures s)" by auto
  with salary_entries(2)[OF assms(1)] have "ss_id x = k" by auto
  with k salary_entries(1)[OF assms(1)] show ?thesis
    by (simp add: getSalaryStructure_def)
qed

lemma getCurrent_stored:
  assumes "store_inv s" "getCurrentSalaryStructure c e s = Some cur"
  shows "getSalaryStructure (ss_id cur) s = Some cur"
proof -
  from getCurrent_Some_split[OF assms(2)] have
    "cur \<in> set (filter (isCurrent c e) (map snd (salaryStructures s)))"
    by (metis in_set_conv_decomp)
  then have "cur \<in> set (map snd (salaryStructures s))" by simp
  from getSalaryStructure_of_value[OF assms(1) this] show ?thesis .
qed

lemma filter_after_retire:
  assumes "store_inv s" "getSalaryStructure k s = Some old" "\<not> P (f old)"
  shows "filter P (map snd (salaryStructures (snd (updateSalaryStructure k f s)))) =
         filter (\<lambda>x. P x \<and> ss_id x \<noteq> k) (map snd (salaryStructures s))"
proof -
  from assms(2) have "(k, old) \<in> set (salaryStructures s)"
    by (simp add: getSalaryStructure_def map_of_SomeD)
  then have "k \<in> fst ` set (salaryStructures s)" by force
  from update_existing[OF salary_entries(1)[OF assms(1)] this]
  have "salaryStructures (snd (updateSalaryStructure k f s)) =
        map (\<lambda>p. if fst p = k then (k, f old) else p) (salaryStructures s)"
    by (simp add: updateSalaryStructure_def assms(2) Let_def)
  moreover have "\<forall>p\<in>set (salaryStructures s). ss_id (snd p) = fst p"
    using salary_entries(2)[OF assms(1)] by blast
  ultimately show ?thesis
    using filter_replaced[of "salaryStructures s" P "f old" k] assms(3) by simp
qed

lemma getSalaryStructure_update:
  "getSalaryStructure j (snd (updateSalaryStructure i f s)) =
     (if j = i then map_option f (getSalaryStructure i s) else getSalaryStructure j s)"
  by (simp add: updateSalaryStructure_def getSalaryStructure_def Let_def update_conv'
      split: option.splits)

lemma createSalaryStructure_new:
  "ss_id (fst (createSalaryStructure d s)) = salaryStructureCurrentId s"
  "ss_employeeId (fst (createSalaryStructure d s)) = is_employeeId d"
  "ss_status (fst (createSalaryStructure d s)) = is_status d"
  "ss_effectiveFrom (fst (createSalaryStructure d s)) = is_effectiveFrom d"
  "ss_effectiveTo (fst (createSalaryStructure d s)) = is_effectiveTo d"
  "salaryStructures (snd (createSalaryStructure d s)) =
     AList.update (salaryStructureCurrentId s) (fst (createSalaryStructure d s)) (salaryStructures s)"
  by (simp_all add: createSalaryStructure_def Let_def)

lemma structures_fresh:
  assumes "store_inv s"
  shows "salaryStructureCurrentId s \<notin> fst ` set (salaryStructures s)"
  using salary_entries(2)[OF assms] by auto

lemma isCurrent_new:
  assumes "is_status d = Some True" "is_effectiveFrom d \<le> now c"
    "\<forall>t. is_effectiveTo d = Some t \<longrightarrow> now c \<le> t"
  shows "isCurrent c (is_employeeId d) (fst (createSalaryStructure d s))"
  using assms by (simp add: isCurrent_def createSalaryStructure_new split: option.splits)

lemma not_isCurrent_retired:
  "\<not> isCurrent c e (x\<lparr>ss_status := Some False, ss_effectiveTo := t\<rparr>)"
  by (simp add: isCurrent_def)

lemma post_salary_active:
  assumes inv: "store_inv s" and auth: "checkAdminOrHRManager c = Inr u"
    and parse: "insertSalaryStructureSchema_parse body = Some d"
    and active: "is_status d = Some True"
    and emp: "getEmployee (is_employeeId d) s = Some e"
  shows "\<exists>new. fst (post_salary_structures c body s) = Inr new \<and>
           getSalaryStructure (ss_id new) (snd (post_salary_structures c body s)) = Some new \<and>
           ss_status new = Some True \<and> ss_employeeId new = is_employeeId d \<and>
           ss_effectiveFrom new = is_effectiveFrom d \<and>
           (\<forall>cur. getCurrentSalaryStructure c (is_employeeId d) s = Some cur \<longrightarrow>
              getSalaryStructure (ss_id cur) (snd (post_salary_structures c body s)) =
                Some (cur\<lparr>ss_status := Some False,
                          ss_effectiveTo := Some (is_effectiveFrom d)\<rparr>)) \<and>
           (length (filter (isCurrent c (is_employeeId d)) (map snd (salaryStructures s))) \<le> 1 \<and>
            is_effectiveFrom d \<le> now c \<and> (\<forall>t. is_effectiveTo d = Some t \<longrightarrow> now c \<le> t) \<longrightarrow>
              filter (isCurrent c (is_employeeId d))
                (map snd (salaryStructures (snd (post_salary_structures c body s)))) = [new])"
proof -
  let ?f = "\<lambda>x. x\<lparr>ss_status := Some False, ss_effectiveTo := Some (is_effectiveFrom d)\<rparr>"
  let ?P = "isCurrent c (is_employeeId d)"
  let ?s' = "snd (post_salary_structures c body s)"
  define S1 where "S1 = (case getCurrentSalaryStructure c (is_employeeId d) s of
                   None \<Rightarrow> s
                 | Some currentSalary \<Rightarrow> snd (updateSalaryStructure (ss_id currentSalary) ?f s))"
  define new where "new = fst (createSalaryStructure d S1)"
  note ok = post_salary_ok[OF auth parse emp]
  have r: "fst (post_salary_structures c body s) = Inr new"
    using ok(1) active by (simp add: new_def S1_def)
  have invS1: "store_inv S1"
    unfolding S1_def using inv
    by (auto split: option.splits intro: store_inv_updateSalaryStructure)
  have cnt: "salaryStructureCurrentId S1 = salaryStructureCurrentId s"
    unfolding S1_def by (simp split: option.splits)
  have structs: "salaryStructures ?s' =
      salaryStructures S1 @ [(salaryStructureCurrentId S1, new)]"
    using ok(2) active update_fresh[OF structures_fresh[OF invS1]]
    by (simp add: new_def S1_def[symmetric] createSalaryStructure_new)
  have fresh: "salaryStructureCurrentId S1 \<notin> fst ` set (salaryStructures S1)"
    by (rule structures_fresh[OF invS1])
  have newid: "ss_id new = salaryStructureCurrentId S1"
    by (simp add: new_def createSalaryStructure_new)
  have get_new: "getSalaryStructure (ss_id new) ?s' = Some new"
  proof -
    from fresh have "map_of (salaryStructures S1) (salaryStructureCurrentId S1) = None"
      by (simp add: map_of_eq_None_iff)
    then show ?thesis
      by (simp add: getSalaryStructure_def structs newid map_add_def)
  qed
  have fields: "ss_status new = Some True" "ss_employeeId new = is_employeeId d"
    "ss_effectiveFrom new = is_effectiveFrom d"
    using active by (simp_all add: new_def createSalaryStructure_new)
  have retired: "getSalaryStructure (ss_id cur) ?s' = Some (?f cur)"
    if cur: "getCurrentSalaryStructure c (is_employeeId d) s = Some cur" for cur
  proof -
    from getCurrent_stored[OF inv cur] have st: "getSalaryStructure (ss_id cur) s = Some cur" .
    have S1: "S1 = snd (updateSalaryStructure (ss_id cur) ?f s)"
      by (simp add: S1_def cur)
    have "getSalaryStructure (ss_id cur) S1 = Some (?f cur)"
      by (simp add: S1 getSalaryStructure_update st)
    then have "map_of (salaryStructures S1) (ss_id cur) = Some (?f cur)"
      by (simp add: getSalaryStructure_def)
    then show ?thesis
      by (simp add: getSalaryStructure_def structs map_add_def)
  qed
  have one: "filter ?P (map snd (salaryStructures ?s')) = [new]"
    if le: "length (filter ?P (map snd (salaryStructures s))) \<le> 1"
      and from_ok: "is_effectiveFrom d \<le> now c"
      and to_ok: "\<forall>t. is_effectiveTo d = Some t \<longrightarrow> now c \<le> t"
  proof -
    have pnew: "?P new"
      unfolding new_def by (rule isCurrent_new[OF active from_ok to_ok])
    have old: "filter ?P (map snd (salaryStructures S1)) = []"
    proof (cases "getCurrentSalaryStructure c (is_employeeId d) s")
      case None
      then show ?thesis by (simp add: S1_def getCurrent_None_iff[symmetric])
    next
      case (Some cur)
      from getCurrent_Some_split[OF Some] obtain pre post where
        sp: "filter ?P (map snd (salaryStructures s)) = pre @ cur # post" by blast
      with le have "pre = []" "post = []" by simp_all
      with sp have single: "filter ?P (map snd (salaryStructures s)) = [cur]" by simp
      have S1: "S1 = snd (updateSalaryStructure (ss_id cur) ?f s)"
        by (simp add: S1_def Some)
      have "filter ?P (map snd (salaryStructures S1)) =
            filter (\<lambda>x. ?P x \<and> ss_id x \<noteq> ss_id cur) (map snd (salaryStructures s))"
        unfolding S1
        using filter_after_retire[where s = s and k = "ss_id cur" and old = cur and P = ?P
            and f = ?f, OF inv getCurrent_stored[OF inv Some]]
          not_isCurrent_retired[where c = c and e = "is_employeeId d" and x = cur]
        by simp
      also have "\<dots> = filter (\<lambda>x. ss_id x \<noteq> ss_id cur)
                         (filter ?P (map snd (salaryStructures s)))"
        by (simp add: conj_commute)
      also have "\<dots> = []" by (simp add: single)
      finally show ?thesis .
    qed
    show ?thesis by (simp add: structs old pnew)
  qed
  from r get_new fields retired one show ?thesis by blast
qed

text \<open>
  C8, as amended. A successful create of an active structure stores the new structure and,
  in the same request, retires the structure that \<^verbatim>\<open>getCurrentSalaryStructure\<close> answers for
  the employee, if any: its \<open>status\<close> becomes false and its \<open>effectiveTo\<close> the new
  structure's \<open>effectiveFrom\<close>. When the employee had at most one active-and-current
  structure before and the new structure's window contains the time of the request, the
  new structure is afterwards the employee's only active-and-current one.
\<close>

theorem new_active_structure_retires_current:
  assumes "store_inv s" and "checkAdminOrHRManager c = Inr u"
    and "insertSalaryStructureSchema_parse body = Some d"
    and "is_status d = Some True"
    and "getEmployee (is_employeeId d) s = Some e"
  shows "\<exists>new. fst (post_salary_structures c body s) = Inr new \<and>
           getSalaryStructure (ss_id new) (snd (post_salary_structures c body s)) = Some new \<and>
           ss_status new = Some True \<and> ss_employeeId new = is_employeeId d \<and>
           ss_effectiveFrom new = is_effectiveFrom d \<and>
           (\<forall>cur. getCurrentSalaryStructure c (is_employeeId d) s = Some cur \<longrightarrow>
              getSalaryStructure (ss_id cur) (snd (post_salary_structures c body s)) =
                Some (cur\<lparr>ss_status := Some False,
                          ss_effectiveTo := Some (is_effectiveFrom d)\<rparr>)) \<and>
           (length (filter (isCurrent c (is_employeeId d)) (map snd (salaryStructures s))) \<le> 1 \<and>
            is_effectiveFrom d \<le> now c \<and> (\<forall>t. is_effectiveTo d = Some t \<longrightarrow> now c \<le> t) \<longrightarrow>
              filter (isCurrent c (is_employeeId d))
                (map snd (salaryStructures (snd (post_salary_structures c body s)))) = [new])"
  using assms by (rule post_salary_active)

lemma one_structure_store_inv: "store_inv one_structure_store"
  unfolding one_structure_store_def by (rule store_inv_run[OF example_store_inv])

lemma one_structure_current:
  "filter (isCurrent hr_ctx 1) (map snd (salaryStructures one_structure_store)) =
     [example_structure 1 500 None True]"
  "getCurrentSalaryStructure hr_ctx 1 one_structure_store = Some (example_structure 1 500 None True)"
proof -
  show f: "filter (isCurrent hr_ctx 1) (map snd (salaryStructures one_structure_store)) =
     [example_structure 1 500 None True]"
    by (simp add: one_structure_store_values isCurrent_def example_structure_def hr_ctx_def)
  show "getCurrentSalaryStructure hr_ctx 1 one_structure_store =
      Some (example_structure 1 500 None True)"
    unfolding getCurrentSalaryStructure_def f by simp
qed

lemma one_structure_getEmployee: "getEmployee 1 one_structure_store = Some alice"
  by (simp add: getEmployee_def one_structure_store_values)

theorem new_active_structure_retires_current_witness:
  "store_inv one_structure_store \<and> checkAdminOrHRManager hr_ctx = Inr hr \<and>
   getCurrentSalaryStructure hr_ctx 1 one_structure_store = Some (example_structure 1 500 None True) \<and>
   (\<exists>new. fst (post_salary_structures hr_ctx (example_salary_body 800) one_structure_store) = Inr new \<and>
      getSalaryStructure 1 (snd (post_salary_structures hr_ctx (example_salary_body 800)
                                   one_structure_store)) =
        Some (example_structure 1 500 (Some 800) False) \<and>
      filter (isCurrent hr_ctx 1)
        (map snd (salaryStructures (snd (post_salary_structures hr_ctx (example_salary_body 800)
                                            one_structure_store)))) = [new])"
proof -
  let ?d = "\<lparr>is_employeeId = 1, is_basicSalary = 5000, is_houseRentAllowance = None,
           is_conveyanceAllowance = None, is_medicalAllowance = None,
           is_specialAllowance = None, is_effectiveFrom = 800, is_effectiveTo = None,
           is_status = Some True\<rparr>"
  have active: "is_status ?d = Some True" by simp
  have e: "getEmployee (is_employeeId ?d) one_structure_store = Some alice"
    by (simp add: one_structure_getEmployee del: One_nat_def)
  have cur: "getCurrentSalaryStructure hr_ctx (is_employeeId ?d) one_structure_store =
      Some (example_structure 1 500 None True)"
    by (simp add: one_structure_current del: One_nat_def)
  have le: "length (filter (isCurrent hr_ctx (is_employeeId ?d))
      (map snd (salaryStructures one_structure_store))) \<le> 1"
    by (simp add: one_structure_current del: One_nat_def)
  have win: "is_effectiveFrom ?d \<le> now hr_ctx" "\<forall>t. is_effectiveTo ?d = Some t \<longrightarrow> now hr_ctx \<le> t"
    by (simp_all add: hr_ctx_def)
  have ret: "example_structure 1 500 None True
      \<lparr>ss_status := Some False, ss_effectiveTo := Some (is_effectiveFrom ?d)\<rparr> =
      example_structure 1 500 (Some 800) False"
    "ss_id (example_structure 1 500 None True) = 1" "is_employeeId ?d = 1"
    by (simp_all add: example_structure_def)
  from new_active_structure_retires_current[OF one_structure_store_inv hr_allowed
      example_salary_parse active e]
  obtain new where
    n: "fst (post_salary_structures hr_ctx (example_salary_body 800) one_structure_store) = Inr new"
    and r: "\<forall>cur. getCurrentSalaryStructure hr_ctx (is_employeeId ?d) one_structure_store = Some cur \<longrightarrow>
              getSalaryStructure (ss_id cur)
                (snd (post_salary_structures hr_ctx (example_salary_body 800) one_structure_store)) =
                Some (cur\<lparr>ss_status := Some False,
                          ss_effectiveTo := Some (is_effectiveFrom ?d)\<rparr>)"
    and o: "length (filter (isCurrent hr_ctx (is_employeeId ?d))
                (map snd (salaryStructures one_structure_store))) \<le> 1 \<and>
            is_effectiveFrom ?d \<le> now hr_ctx \<and>
            (\<forall>t. is_effectiveTo ?d = Some t \<longrightarrow> now hr_ctx \<le> t) \<longrightarrow>
              filter (isCurrent hr_ctx (is_employeeId ?d))
                (map snd (salaryStructures (snd (post_salary_structures hr_ctx
                   (example_salary_body 800) one_structure_store)))) = [new]"
    by blast
  from r cur have "getSalaryStructure (ss_id (example_structure 1 500 None True))
                (snd (post_salary_structures hr_ctx (example_salary_body 800) one_structure_store)) =
                Some (example_structure 1 500 None True\<lparr>ss_status := Some False,
                          ss_effectiveTo := Some (is_effectiveFrom ?d)\<rparr>)" by blast
  then have g: "getSalaryStructure 1
                (snd (post_salary_structures hr_ctx (example_salary_body 800) one_structure_store)) =
                Some (example_structure 1 500 (Some 800) False)"
    unfolding ret .
  from o le win have "filter (isCurrent hr_ctx (is_employeeId ?d))
                (map snd (salaryStructures (snd (post_salary_structures hr_ctx
                   (example_salary_body 800) one_structure_store)))) = [new]" by blast
  then have f: "filter (isCurrent hr_ctx 1)
                (map snd (salaryStructures (snd (post_salary_structures hr_ctx
                   (example_salary_body 800) one_structure_store)))) = [new]"
    unfolding ret .
  from n g f one_structure_store_inv hr_allowed one_structure_current(2) show ?thesis by blast
qed

theorem future_structure_leaves_none_current_counterexample:
  "filter (isCurrent hr_ctx 1) (map snd (salaryStructures one_structure_store)) =
     [example_structure 1 500 None True] \<and>
   fst (post_salary_structures hr_ctx (example_salary_body 2000) one_structure_store) =
     Inr (example_structure 2 2000 None True) \<and>
   map snd (salaryStructures
     (snd (post_salary_structures hr_ctx (example_salary_body 2000) one_structure_store))) =
     [example_structure 1 500 (Some 2000) False, example_structure 2 2000 None True] \<and>
   filter (isCurrent hr_ctx 1) (map snd (salaryStructures
     (snd (post_salary_structures hr_ctx (example_salary_body 2000) one_structure_store)))) = []"
proof -
  let ?d = "\<lparr>is_employeeId = 1, is_basicSalary = 5000, is_houseRentAllowance = None,
           is_conveyanceAllowance = None, is_medicalAllowance = None,
           is_specialAllowance = None, is_effectiveFrom = 2000, is_effectiveTo = None,
           is_status = Some True\<rparr>"
  let ?S1 = "snd (updateSalaryStructure 1
               (\<lambda>x. x\<lparr>ss_status := Some False, ss_effectiveTo := Some 2000\<rparr>)
               one_structure_store)"
  have e: "getEmployee (is_employeeId ?d) one_structure_store = Some alice"
    by (simp add: one_structure_getEmployee del: One_nat_def)
  note ok = post_salary_ok[OF hr_allowed example_salary_parse e]
  have S1: "(if is_status ?d = Some True then
                (case getCurrentSalaryStructure hr_ctx (is_employeeId ?d) one_structure_store of
                   None \<Rightarrow> one_structure_store
                 | Some currentSalary \<Rightarrow>
                     snd (updateSalaryStructure (ss_id currentSalary)
                            (\<lambda>x. x\<lparr>ss_status := Some False,
                                   ss_effectiveTo := Some (is_effectiveFrom ?d)\<rparr>)
                            one_structure_store))
              else one_structure_store) = ?S1"
    by (simp add: one_structure_current del: One_nat_def) (simp add: example_structure_def)
  have v: "salaryStructures ?S1 = [(1, example_structure 1 500 (Some 2000) False)]"
    "salaryStructureCurrentId ?S1 = 2"
    by (simp_all add: updateSalaryStructure_def getSalaryStructure_def Let_def
        one_structure_store_values example_structure_def)
  have a: "fst (post_salary_structures hr_ctx (example_salary_body 2000) one_structure_store) =
     Inr (example_structure 2 2000 None True)"
    unfolding ok(1) S1
    by (simp add: createSalaryStructure_def Let_def v one_structure_store_values
        example_structure_def del: One_nat_def)
  have b: "map snd (salaryStructures
     (snd (post_salary_structures hr_ctx (example_salary_body 2000) one_structure_store))) =
     [example_structure 1 500 (Some 2000) False, example_structure 2 2000 None True]"
    unfolding ok(2) S1
    by (simp add: createSalaryStructure_def Let_def v one_structure_store_values
        example_structure_def del: One_nat_def)
  have c: "filter (isCurrent hr_ctx 1)
      [example_structure 1 500 (Some 2000) False, example_structure 2 2000 None True] = []"
    by (simp add: isCurrent_def example_structure_def hr_ctx_def)
  from a b c one_structure_current(1) show ?thesis by simp
qed

theorem create_never_consults_salary_structures_witness:
  "checkAdminOrHRManager hr_ctx = Inr hr \<and>
   pb_basicSalary (example_body None 0) = None \<and>
   getCurrentSalaryStructure hr_ctx 1 one_structure_store = Some (example_structure 1 500 None True) \<and>
   post_payrolls hr_ctx (example_body None 0) one_structure_store =
     (Inl ValidationError, one_structure_store) \<and>
   fst (post_payrolls hr_ctx (example_body None 0) (one_structure_store\<lparr>salaryStructures := []\<rparr>)) =
     Inl ValidationError \<and>
   snd (post_payrolls hr_ctx (example_body None 0) one_structure_store) = one_structure_store"
proof -
  have b: "pb_basicSalary (example_body None 0) = None" by (simp add: example_body_def)
  note t = create_never_consults_salary_structures[OF hr_allowed,
      of "example_body None 0" one_structure_store "[]"]
  from t b have r: "post_payrolls hr_ctx (example_body None 0) one_structure_store =
     (Inl ValidationError, one_structure_store)" by blast
  from t have "fst (post_payrolls hr_ctx (example_body None 0)
       (one_structure_store\<lparr>salaryStructures := []\<rparr>)) =
     fst (post_payrolls hr_ctx (example_body None 0) one_structure_store)" by blast
  with r have i: "fst (post_payrolls hr_ctx (example_body None 0)
       (one_structure_store\<lparr>salaryStructures := []\<rparr>)) = Inl ValidationError" by simp
  from r have f: "fst (post_payrolls hr_ctx (example_body None 0) one_structure_store) =
      Inl ValidationError" by simp
  from t f have u: "snd (post_payrolls hr_ctx (example_body None 0) one_structure_store) =
      one_structure_store" by blast
  from hr_allowed b one_structure_current(2) r i u show ?thesis by blast
qed

subsection \<open>Audit failures\<close>

text \<open>
  The four handlers of routes.ts go through the helper \<^verbatim>\<open>createAuditLog\<close>: with the audit
  store down they still answer success and make their change, and no audit entry is
  recorded.
\<close>

lemma approve_with_audit_down:
  assumes "checkAdminOrHRManager c = Inr u" and "getPayroll i s = Some p"
    and "p_status p = Some draft" and "auditUnavailable c"
  shows "post_payrolls_approve c i s =
           (Inr (Some (p\<lparr>p_status := Some approved, p_approvedBy := Some (u_id u),
                          p_approvalDate := Some (now c)\<rparr>)),
            s\<lparr>payrolls := AList.update i
                   (p\<lparr>p_status := Some approved, p_approvedBy := Some (u_id u),
                      p_approvalDate := Some (now c)\<rparr>) (payrolls s)\<rparr>)"
  using assms
  by (simp add: post_payrolls_approve_def Let_def split_beta updatePayroll_def
      createAuditLog_unavailable)

lemma mark_paid_with_audit_down:
  assumes "checkAdminOrHRManager c = Inr u" and "getPayroll i s = Some p"
    and "p_status p = Some approved" and "auditUnavailable c"
  shows "post_payrolls_mark_paid c i s =
           (Inr (Some (p\<lparr>p_status := Some paid\<rparr>)),
            s\<lparr>payrolls := AList.update i (p\<lparr>p_status := Some paid\<rparr>) (payrolls s)\<rparr>)"
  using assms
  by (simp add: post_payrolls_mark_paid_def Let_def split_beta updatePayroll_def
      createAuditLog_unavailable)

lemma salary_create_with_audit_down:
  assumes "checkAdminOrHRManager c = Inr u"
    and "insertSalaryStructureSchema_parse body = Some d"
    and "getEmployee (is_employeeId d) s = Some e" and "auditUnavailable c"
  shows "\<exists>new. fst (post_salary_structures c body s) = Inr new \<and>
           ss_employeeId new = is_employeeId d \<and>
           map_of (salaryStructures (snd (post_salary_structures c body s))) (ss_id new) =
             Some new \<and>
           auditLogs (snd (post_salary_structures c body s)) = auditLogs s"
proof -
  define S1 where "S1 = (if is_status d = Some True then
                (case getCurrentSalaryStructure c (is_employeeId d) s of
                   None \<Rightarrow> s
                 | Some currentSalary \<Rightarrow>
                     snd (updateSalaryStructure (ss_id currentSalary)
                            (\<lambda>x. x\<lparr>ss_status := Some False,
                                   ss_effectiveTo := Some (is_effectiveFrom d)\<rparr>) s))
              else s)"
  have a: "auditLogs (snd (post_salary_structures c body s)) = auditLogs s"
    using assms
    by (simp add: post_salary_structures_def Let_def split_beta createAuditLog_unavailable
        createSalaryStructure_def updateSalaryStructure_def split: option.splits)
  have f: "fst (post_salary_structures c body s) = Inr (fst (createSalaryStructure d S1))"
    unfolding S1_def by (rule post_salary_ok(1)[OF assms(1-3)])
  have g: "salaryStructures (snd (post_salary_structures c body s)) =
      salaryStructures (snd (createSalaryStructure d S1))"
    unfolding S1_def by (rule post_salary_ok(2)[OF assms(1-3)])
  have m: "map_of (salaryStructures (snd (post_salary_structures c body s)))
      (ss_id (fst (createSalaryStructure d S1))) = Some (fst (createSalaryStructure d S1))"
    unfolding g by (simp add: createSalaryStructure_new update_conv')
  from a f m createSalaryStructure_new(2)[of d S1] show ?thesis by blast
qed

lemma payroll_create_with_audit_down:
  assumes "checkAdminOrHRManager c = Inr u" and "insertPayrollSchema_parse body = Some d"
    and "getEmployee (ip_employeeId d) s = Some e" and "auditUnavailable c"
  shows "\<exists>pay. post_payrolls c body s =
           (Inr pay, s\<lparr>payrolls := AList.update (payrollCurrentId s) pay (payrolls s),
                        payrollCurrentId := payrollCurrentId s + 1\<rparr>)"
  using assms
  by (simp add: post_payrolls_def Let_def split_beta createPayroll_def
      createAuditLog_unavailable)

text \<open>
  C9. The failing input: a registration while the audit store is down. The user is
  created and stored, and the answer is the error 500 instead of 201: the register
  handler awaits \<^verbatim>\<open>storage.createAuditLog\<close> without the \<^verbatim>\<open>try\<close>/\<^verbatim>\<open>catch\<close> that the helper of
  routes.ts and the logout handler put around it.
\<close>

theorem register_surfaces_audit_failure:
  "getUserByUsername ''carol'' (example_store None) = None \<and>
   getUserByEmail ''carol@example.com'' (example_store None) = None \<and>
   fst (post_register down_ctx (Some example_registration) ''hash.salt'' (example_store None)) =
     Inl ServerError \<and>
   map snd (users (snd (post_register down_ctx (Some example_registration) ''hash.salt''
                          (example_store None)))) =
     [hr, \<lparr>u_id = 8, u_username = ''carol'', u_password = ''hash.salt'',
           u_email = ''carol@example.com'', u_role = employee, u_status = None,
           u_lastLogin = None\<rparr>] \<and>
   fst (post_register (down_ctx\<lparr>auditUnavailable := False\<rparr>) (Some example_registration)
          ''hash.salt'' (example_store None)) =
     Inr \<lparr>up_id = 8, up_username = ''carol'', up_email = ''carol@example.com'',
           up_role = employee, up_status = None, up_lastLogin = None\<rparr>"
  by (simp add: post_register_def getUserByUsername_def getUserByEmail_def createUser_def
      storage_createAuditLog_def Let_def example_store_def example_registration_def
      down_ctx_def hr_def)

subsection \<open>Whole numbers are added exactly\<close>

lemma pow2_nonpos: "e \<le> 0 \<Longrightarrow> pow2 e = 1 / 2 ^ nat (- e)"
  by (simp add: pow2_def)

lemma round_half_even_int: "round_half_even (of_int m) = m"
  by (simp add: round_half_even_def)

lemma ulp_exp_int:
  assumes "0 < m"
  shows "ulp_exp (of_int m) = bitlen m - 53"
proof -
  have b1: "bitlen 1 = 1" by (simp add: bitlen_alt_def)
  from assms have ge: "1 \<le> bitlen m" by (simp add: bitlen_alt_def)
  from bitlen_bounds[OF assms] have "2 ^ nat (bitlen m - 1) \<le> m" by simp
  then have "(of_int (2 ^ nat (bitlen m - 1)) :: rat) \<le> of_int m"
    by (simp only: of_int_le_iff)
  then have le: "pow2 (bitlen m - 1) \<le> of_int m"
    using ge by (simp add: pow2_def)
  have a: "\<bar>of_int m :: rat\<bar> = of_int m" using assms by simp
  show ?thesis
    unfolding ulp_exp_def a using le by (simp add: Let_def b1)
qed

lemma fp_round_pos_int:
  assumes "0 < m" "m < 2 ^ 53"
  shows "fp_round (of_int m) = of_int m"
proof -
  from assms(2) have "bitlen m \<le> 53" by (simp add: bitlen_le_iff_power)
  then have e: "ulp_exp (of_int m) \<le> 0" by (simp add: ulp_exp_int[OF assms(1)])
  define j where "j = nat (- ulp_exp (of_int m))"
  have p: "pow2 (ulp_exp (of_int m)) = 1 / 2 ^ j"
    unfolding j_def by (rule pow2_nonpos[OF e])
  have "of_int m / pow2 (ulp_exp (of_int m)) = (of_int (m * 2 ^ j) :: rat)"
    by (simp add: p)
  then have "round_half_even (of_int m / pow2 (ulp_exp (of_int m))) = m * 2 ^ j"
    by (simp only: round_half_even_int)
  then show ?thesis
    using assms(1) by (simp add: fp_round_def p)
qed

lemma ulp_exp_minus: "ulp_exp (- x) = ulp_exp x"
  by (simp add: ulp_exp_def)

lemma fp_round_neg_int:
  assumes "0 < m" "m < 2 ^ 53"
  shows "fp_round (- of_int m) = - of_int m"
proof -
  from assms(2) have "bitlen m \<le> 53" by (simp add: bitlen_le_iff_power)
  then have e: "ulp_exp (of_int m) \<le> 0" by (simp add: ulp_exp_int[OF assms(1)])
  define j where "j = nat (- ulp_exp (of_int m))"
  have p: "pow2 (ulp_exp (of_int m)) = 1 / 2 ^ j"
    unfolding j_def by (rule pow2_nonpos[OF e])
  have "- of_int m / pow2 (ulp_exp (of_int m)) = (of_int (- m * 2 ^ j) :: rat)"
    by (simp add: p)
  then have "round_half_even (- of_int m / pow2 (ulp_exp (of_int m))) = - m * 2 ^ j"
    by (simp only: round_half_even_int)
  then show ?thesis
    using assms(1) by (simp add: fp_round_def p ulp_exp_minus)
qed

lemma fp_round_whole:
  assumes "x \<in> \<int>" "\<bar>x\<bar> < 2 ^ 53"
  shows "fp_round x = x"
proof -
  from assms(1) obtain n where n: "x = of_int n" by (rule Ints_cases)
  from assms(2) have b: "\<bar>n\<bar> < 2 ^ 53"
    unfolding n by (metis of_int_abs of_int_less_numeral_power_cancel_iff)
  consider "n = 0" | "0 < n" | "n < 0" by linarith
  then show ?thesis
  proof cases
    case 1
    then show ?thesis by (simp add: n fp_round_def)
  next
    case 2
    with b fp_round_pos_int[of n] show ?thesis by (simp add: n)
  next
    case 3
    with b fp_round_neg_int[of "- n"] show ?thesis by (simp add: n)
  qed
qed

lemma js_add_whole:
  assumes "a \<in> \<int>" "b \<in> \<int>" "\<bar>a\<bar> + \<bar>b\<bar> < 2 ^ 53"
  shows "js_add a b = a + b"
proof -
  have "\<bar>a + b\<bar> \<le> \<bar>a\<bar> + \<bar>b\<bar>" by (rule abs_triangle_ineq)
  with assms(3) have "\<bar>a + b\<bar> < 2 ^ 53" by linarith
  with assms(1,2) show ?thesis
    unfolding js_add_def by (intro fp_round_whole) simp_all
qed

lemma js_sub_whole:
  assumes "a \<in> \<int>" "b \<in> \<int>" "\<bar>a\<bar> + \<bar>b\<bar> < 2 ^ 53"
  shows "js_sub a b = a - b"
proof -
  have "\<bar>a - b\<bar> \<le> \<bar>a\<bar> + \<bar>b\<bar>" by (rule abs_triangle_ineq4)
  with assms(3) have "\<bar>a - b\<bar> < 2 ^ 53" by linarith
  with assms(1,2) show ?thesis
    unfolding js_sub_def by (intro fp_round_whole) simp_all
qed

lemma Number_whole:
  assumes "a \<in> \<int>" "\<bar>a\<bar> < 2 ^ 53"
  shows "Number a = a"
  unfolding Number_def by (rule fp_round_whole[OF assms])

lemma sum_abs_nonneg: "0 \<le> (\<Sum>a\<leftarrow>as. \<bar>a :: rat\<bar>)"
  by (induction as) auto

lemma foldl_js_add_whole:
  assumes "\<forall>a\<in>set as. a \<in> \<int>" "acc \<in> \<int>" "\<bar>acc\<bar> + (\<Sum>a\<leftarrow>as. \<bar>a\<bar>) < 2 ^ 53"
  shows "foldl js_add acc (map Number as) = acc + sum_list as"
  using assms
proof (induction as arbitrary: acc)
  case Nil
  then show ?case by simp
next
  case (Cons a as)
  have nn: "0 \<le> (\<Sum>a\<leftarrow>as. \<bar>a\<bar>)" by (rule sum_abs_nonneg)
  from Cons.prems have a: "a \<in> \<int>" and rest: "\<forall>a\<in>set as. a \<in> \<int>" by simp_all
  from Cons.prems(3) nn have small: "\<bar>a\<bar> < 2 ^ 53" "\<bar>acc\<bar> + \<bar>a\<bar> < 2 ^ 53" by simp_all
  have step: "js_add acc (Number a) = acc + a"
    by (simp add: Number_whole[OF a small(1)] js_add_whole[OF Cons.prems(2) a small(2)])
  have "\<bar>acc + a\<bar> \<le> \<bar>acc\<bar> + \<bar>a\<bar>" by (rule abs_triangle_ineq)
  with Cons.prems(3) have b: "\<bar>acc + a\<bar> + (\<Sum>a\<leftarrow>as. \<bar>a\<bar>) < 2 ^ 53" by simp
  have "acc + a \<in> \<int>" using Cons.prems(2) a by simp
  from Cons.IH[OF rest this b] show ?case by (simp add: step add.assoc)
qed

lemma sum_abs_filter_le:
  "(\<Sum>a\<leftarrow>map f (filter P xs). \<bar>a :: rat\<bar>) \<le> (\<Sum>a\<leftarrow>map f xs. \<bar>a\<bar>)"
  by (induction xs) auto

lemma sum_abs_filter_split:
  "(\<Sum>a\<leftarrow>map f (filter P xs). \<bar>a :: rat\<bar>) + (\<Sum>a\<leftarrow>map f (filter (\<lambda>x. \<not> P x) xs). \<bar>a\<bar>) =
   (\<Sum>a\<leftarrow>map f xs. \<bar>a\<bar>)"
  by (induction xs) auto

lemma not_earning: "(pi_itemType x \<noteq> earning) = (pi_itemType x = deduction)"
  by (cases "pi_itemType x") simp_all

lemma sumItems_whole:
  assumes "\<forall>x\<in>set xs. pi_amount x \<in> \<int>" "(\<Sum>a\<leftarrow>map pi_amount xs. \<bar>a\<bar>) < 2 ^ 53"
  shows "sumItems xs =
          (sum_list (map pi_amount (filter (\<lambda>x. pi_itemType x = earning) xs)),
           sum_list (map pi_amount (filter (\<lambda>x. pi_itemType x = deduction) xs)))"
proof -
  have m: "map (\<lambda>x. Number (pi_amount x)) ys = map Number (map pi_amount ys)"
    for ys :: "PayrollItem list"
    by simp
  have w: "\<forall>a\<in>set (map pi_amount (filter P xs)). a \<in> \<int>" for P
    using assms(1) by auto
  have b: "\<bar>0 :: rat\<bar> + (\<Sum>a\<leftarrow>map pi_amount (filter P xs). \<bar>a\<bar>) < 2 ^ 53" for P
    using sum_abs_filter_le[of pi_amount P xs] assms(2) by simp
  show ?thesis
    unfolding sumItems_folds m
    using foldl_js_add_whole[OF w _ b] by simp
qed

lemma whole_sum_list: "\<forall>a\<in>set as. a \<in> \<int> \<Longrightarrow> sum_list as \<in> (\<int> :: rat set)"
  by (induction as) auto

lemma abs_sum_list_le: "\<bar>sum_list as\<bar> \<le> (\<Sum>a\<leftarrow>as. \<bar>a :: rat\<bar>)"
  by (induction as) auto

lemma net_whole:
  assumes "\<forall>x\<in>set xs. pi_amount x \<in> \<int>" "b \<in> \<int>"
    "\<bar>b\<bar> + (\<Sum>a\<leftarrow>map pi_amount xs. \<bar>a\<bar>) < 2 ^ 53"
  shows "js_sub (js_add (Number b) (fst (sumItems xs))) (snd (sumItems xs)) =
           b + sum_list (map pi_amount (filter (\<lambda>x. pi_itemType x = earning) xs))
             - sum_list (map pi_amount (filter (\<lambda>x. pi_itemType x = deduction) xs))"
proof -
  let ?E = "map pi_amount (filter (\<lambda>x. pi_itemType x = earning) xs)"
  let ?D = "map pi_amount (filter (\<lambda>x. pi_itemType x = deduction) xs)"
  have nn: "0 \<le> (\<Sum>a\<leftarrow>map pi_amount xs. \<bar>a\<bar>)" by (rule sum_abs_nonneg)
  have bb: "\<bar>b\<bar> < 2 ^ 53" using assms(3) nn by linarith
  have ss: "(\<Sum>a\<leftarrow>map pi_amount xs. \<bar>a\<bar>) < 2 ^ 53"
    using assms(3) abs_ge_zero[of b] by linarith
  have split: "(\<Sum>a\<leftarrow>?E. \<bar>a\<bar>) + (\<Sum>a\<leftarrow>?D. \<bar>a\<bar>) = (\<Sum>a\<leftarrow>map pi_amount xs. \<bar>a\<bar>)"
    using sum_abs_filter_split[of pi_amount "\<lambda>x. pi_itemType x = earning" xs]
    by (simp add: not_earning)
  have E: "sum_list ?E \<in> \<int>" "sum_list ?D \<in> \<int>"
    using assms(1) by (auto intro!: whole_sum_list)
  have aE: "\<bar>sum_list ?E\<bar> \<le> (\<Sum>a\<leftarrow>?E. \<bar>a\<bar>)" and aD: "\<bar>sum_list ?D\<bar> \<le> (\<Sum>a\<leftarrow>?D. \<bar>a\<bar>)"
    by (rule abs_sum_list_le)+
  have nnD: "0 \<le> (\<Sum>a\<leftarrow>?D. \<bar>a\<bar>)" by (rule sum_abs_nonneg)
  have 1: "js_add b (sum_list ?E) = b + sum_list ?E"
    using aE split nnD assms(3) by (intro js_add_whole[OF assms(2) E(1)]) linarith
  have tri: "\<bar>b + sum_list ?E\<bar> \<le> \<bar>b\<bar> + \<bar>sum_list ?E\<bar>" by (rule abs_triangle_ineq)
  have bE: "b + sum_list ?E \<in> \<int>" using assms(2) E(1) by simp
  have small: "\<bar>b + sum_list ?E\<bar> + \<bar>sum_list ?D\<bar> < 2 ^ 53"
    using tri aE aD split assms(3) by linarith
  have 2: "js_sub (b + sum_list ?E) (sum_list ?D) = b + sum_list ?E - sum_list ?D"
    by (rule js_sub_whole[OF bE E(2) small])
  show ?thesis
    by (simp add: sumItems_whole[OF assms(1) ss] Number_whole[OF assms(2) bb] 1 2)
qed

subsection \<open>Totals after a sequence of addItem requests\<close>

lemma parse_itemBody [simp]: "insertPayrollItemSchema_parse (itemBody d) = Some d"
  by (simp add: insertPayrollItemSchema_parse_def itemBody_def)

lemma recomputed_fields [simp]:
  "p_status (recomputed p xs) = p_status p"
  "p_basicSalary (recomputed p xs) = p_basicSalary p"
  "p_id (recomputed p xs) = p_id p"
  "p_totalEarnings (recomputed p xs) = fst (sumItems xs)"
  "p_totalDeductions (recomputed p xs) = snd (sumItems xs)"
  "p_netSalary (recomputed p xs) =
     js_sub (js_add (Number (p_basicSalary p)) (fst (sumItems xs))) (snd (sumItems xs))"
  by (simp_all add: recomputed_def)

lemma recomputed_twice [simp]: "recomputed (recomputed p xs) ys = recomputed p ys"
  by (simp add: recomputed_def)

lemma addItem_step:
  assumes inv: "store_inv s" and auth: "checkAdminOrHRManager c = Inr u"
    and gp: "getPayroll (ii_payrollId d) s = Some p" and st: "p_status p = Some draft"
  shows "getPayrollItemsByPayroll (ii_payrollId d) (step (c, AddItem (itemBody d)) s) =
           getPayrollItemsByPayroll (ii_payrollId d) s @ [fst (createPayrollItem d s)]"
    and "getPayroll (ii_payrollId d) (step (c, AddItem (itemBody d)) s) =
           Some (recomputed p (getPayrollItemsByPayroll (ii_payrollId d) s
                                 @ [fst (createPayrollItem d s)]))"
    and "fst (post_payroll_items c (itemBody d) s) = Inr (fst (createPayrollItem d s))"
proof -
  from getPayroll_lt[OF inv gp] have pid: "p_id p = ii_payrollId d" by simp
  note d = post_items_draft[OF auth parse_itemBody gp st]
  show "getPayrollItemsByPayroll (ii_payrollId d) (step (c, AddItem (itemBody d)) s) =
           getPayrollItemsByPayroll (ii_payrollId d) s @ [fst (createPayrollItem d s)]"
    by (simp add: d getPayrollItems_create[OF inv])
  show "getPayroll (ii_payrollId d) (step (c, AddItem (itemBody d)) s) =
           Some (recomputed p (getPayrollItemsByPayroll (ii_payrollId d) s
                                 @ [fst (createPayrollItem d s)]))"
    by (simp add: d pid getPayroll_updatePayroll gp getPayrollItems_create[OF inv]
        recomputed_def)
  show "fst (post_payroll_items c (itemBody d) s) = Inr (fst (createPayrollItem d s))"
    by (simp add: d)
qed

lemma addItems_run:
  assumes "store_inv s" and "getPayroll i s = Some p" and "p_status p = Some draft"
    and "\<forall>cd\<in>set xs. (\<exists>u. checkAdminOrHRManager (fst cd) = Inr u) \<and> ii_payrollId (snd cd) = i"
  shows "\<exists>new. getPayrollItemsByPayroll i (run (map addItemRequest xs) s) =
                 getPayrollItemsByPayroll i s @ new \<and>
               map (\<lambda>x. (pi_itemType x, pi_amount x)) new =
                 map (\<lambda>cd. (ii_itemType (snd cd), ii_amount (snd cd))) xs \<and>
               getPayroll i (run (map addItemRequest xs) s) =
                 Some (if xs = [] then p
                       else recomputed p (getPayrollItemsByPayroll i s @ new))"
  using assms
proof (induction xs arbitrary: s p)
  case Nil
  then show ?case by (simp add: run_def)
next
  case (Cons cd xs)
  obtain c d where cd: "cd = (c, d)" by (cases cd)
  from Cons.prems(4) cd obtain u where
    auth: "checkAdminOrHRManager c = Inr u" and i: "ii_payrollId d = i" by auto
  let ?s1 = "step (c, AddItem (itemBody d)) s"
  let ?item = "fst (createPayrollItem d s)"
  let ?p1 = "recomputed p (getPayrollItemsByPayroll i s @ [?item])"
  from Cons.prems(2) i have gp: "getPayroll (ii_payrollId d) s = Some p" by simp
  note st = addItem_step[OF Cons.prems(1) auth gp Cons.prems(3)]
  have inv1: "store_inv ?s1" by (rule store_inv_step[OF Cons.prems(1)])
  have gp1: "getPayroll i ?s1 = Some ?p1" using st(2) i by simp
  have st1: "p_status ?p1 = Some draft" using Cons.prems(3) by simp
  have rest: "\<forall>cd\<in>set xs. (\<exists>u. checkAdminOrHRManager (fst cd) = Inr u) \<and>
      ii_payrollId (snd cd) = i"
    using Cons.prems(4) by simp
  from Cons.IH[OF inv1 gp1 st1 rest] obtain new where
    n: "getPayrollItemsByPayroll i (run (map addItemRequest xs) ?s1) =
          getPayrollItemsByPayroll i ?s1 @ new"
       "map (\<lambda>x. (pi_itemType x, pi_amount x)) new =
          map (\<lambda>cd. (ii_itemType (snd cd), ii_amount (snd cd))) xs"
       "getPayroll i (run (map addItemRequest xs) ?s1) =
          Some (if xs = [] then ?p1
                else recomputed ?p1 (getPayrollItemsByPayroll i ?s1 @ new))"
    by blast
  have items1: "getPayrollItemsByPayroll i ?s1 = getPayrollItemsByPayroll i s @ [?item]"
    using st(1) i by simp
  have run: "run (addItemRequest cd # map addItemRequest xs) s =
      run (map addItemRequest xs) ?s1"
    by (simp add: run_def addItemRequest_def cd)
  have xs_nil: "xs = [] \<Longrightarrow> new = []" using n(2) by simp
  show ?case
  proof (intro exI[of _ "?item # new"] conjI)
    show "getPayrollItemsByPayroll i (run (map addItemRequest (cd # xs)) s) =
            getPayrollItemsByPayroll i s @ ?item # new"
      by (simp add: run n(1) items1 del: step.simps)
    show "map (\<lambda>x. (pi_itemType x, pi_amount x)) (?item # new) =
            map (\<lambda>cd. (ii_itemType (snd cd), ii_amount (snd cd))) (cd # xs)"
      by (simp add: n(2) cd createPayrollItem_item)
    show "getPayroll i (run (map addItemRequest (cd # xs)) s) =
            Some (if cd # xs = [] then p
                  else recomputed p (getPayrollItemsByPayroll i s @ ?item # new))"
      using xs_nil by (simp add: run n(3) items1 del: step.simps)
  qed
qed

lemma totalOf_items:
  "sum_list (map pi_amount (filter (\<lambda>x. pi_itemType x = t) xs)) =
     totalOf t (map (\<lambda>x. (pi_itemType x, pi_amount x)) xs)"
  by (induction xs) (simp_all add: totalOf_def)

lemma totalOf_append: "totalOf t (es @ fs) = totalOf t es + totalOf t fs"
  by (simp add: totalOf_def)

lemma totalOf_mset:
  assumes "mset es = mset fs"
  shows "totalOf t es = totalOf t fs"
proof -
  have "totalOf t gs = sum_mset (image_mset snd (filter_mset (\<lambda>e. fst e = t) (mset gs)))"
    for gs
    unfolding totalOf_def by (simp flip: sum_mset_sum_list)
  with assms show ?thesis by simp
qed

lemma sum_abs_mset:
  assumes "mset as = mset bs"
  shows "(\<Sum>a\<leftarrow>as. \<bar>f a :: rat\<bar>) = (\<Sum>a\<leftarrow>bs. \<bar>f a\<bar>)"
proof -
  have "(\<Sum>a\<leftarrow>gs. \<bar>f a\<bar>) = sum_mset (image_mset (\<lambda>a. \<bar>f a\<bar>) (mset gs))" for gs
    by (simp flip: sum_mset_sum_list)
  with assms show ?thesis by simp
qed

lemma run_totals_whole:
  assumes inv: "store_inv s" and gp: "getPayroll i s = Some p" and st: "p_status p = Some draft"
    and valid: "\<forall>cd\<in>set xs. (\<exists>u. checkAdminOrHRManager (fst cd) = Inr u) \<and>
                  ii_payrollId (snd cd) = i"
    and ne: "xs \<noteq> []"
    and wb: "p_basicSalary p \<in> \<int>"
    and wo: "\<forall>x\<in>set (getPayrollItemsByPayroll i s). pi_amount x \<in> \<int>"
    and wn: "\<forall>cd\<in>set xs. ii_amount (snd cd) \<in> \<int>"
    and bound: "\<bar>p_basicSalary p\<bar> + (\<Sum>x\<leftarrow>getPayrollItemsByPayroll i s. \<bar>pi_amount x\<bar>)
                  + (\<Sum>cd\<leftarrow>xs. \<bar>ii_amount (snd cd)\<bar>) < 2 ^ 53"
  shows "\<exists>q. getPayroll i (run (map addItemRequest xs) s) = Some q \<and>
           p_totalEarnings q =
             totalOf earning (map (\<lambda>x. (pi_itemType x, pi_amount x)) (getPayrollItemsByPayroll i s))
             + totalOf earning (map (\<lambda>d. (ii_itemType d, ii_amount d)) (map snd xs)) \<and>
           p_totalDeductions q =
             totalOf deduction (map (\<lambda>x. (pi_itemType x, pi_amount x)) (getPayrollItemsByPayroll i s))
             + totalOf deduction (map (\<lambda>d. (ii_itemType d, ii_amount d)) (map snd xs)) \<and>
           p_netSalary q = p_basicSalary p + p_totalEarnings q - p_totalDeductions q"
proof -
  let ?old = "getPayrollItemsByPayroll i s"
  from addItems_run[OF inv gp st valid] ne obtain new where
    n: "map (\<lambda>x. (pi_itemType x, pi_amount x)) new =
          map (\<lambda>cd. (ii_itemType (snd cd), ii_amount (snd cd))) xs"
       "getPayroll i (run (map addItemRequest xs) s) = Some (recomputed p (?old @ new))"
    by auto
  from n(1) have "map snd (map (\<lambda>x. (pi_itemType x, pi_amount x)) new) =
      map snd (map (\<lambda>cd. (ii_itemType (snd cd), ii_amount (snd cd))) xs)" by simp
  then have am: "map pi_amount new = map (\<lambda>cd. ii_amount (snd cd)) xs"
    by (simp add: comp_def)
  have wnew: "\<forall>x\<in>set new. pi_amount x \<in> \<int>"
  proof
    fix x assume "x \<in> set new"
    then have "pi_amount x \<in> set (map pi_amount new)" by simp
    then have "pi_amount x \<in> set (map (\<lambda>cd. ii_amount (snd cd)) xs)" by (simp only: am)
    then obtain cd where "cd \<in> set xs" "pi_amount x = ii_amount (snd cd)" by auto
    with wn show "pi_amount x \<in> \<int>" by simp
  qed
  have whole: "\<forall>x\<in>set (?old @ new). pi_amount x \<in> \<int>" using wo wnew by auto
  have "(\<Sum>a\<leftarrow>map pi_amount new. \<bar>a\<bar>) = (\<Sum>a\<leftarrow>map (\<lambda>cd. ii_amount (snd cd)) xs. \<bar>a\<bar>)"
    by (simp only: am)
  then have "(\<Sum>x\<leftarrow>new. \<bar>pi_amount x\<bar>) = (\<Sum>cd\<leftarrow>xs. \<bar>ii_amount (snd cd)\<bar>)"
    by (simp add: comp_def)
  with bound have b: "\<bar>p_basicSalary p\<bar> + (\<Sum>a\<leftarrow>map pi_amount (?old @ new). \<bar>a\<bar>) < 2 ^ 53"
    by (simp add: comp_def)
  have nn: "0 \<le> \<bar>p_basicSalary p\<bar>" by simp
  from b nn have b': "(\<Sum>a\<leftarrow>map pi_amount (?old @ new). \<bar>a\<bar>) < 2 ^ 53" by linarith
  have ent: "map (\<lambda>x. (pi_itemType x, pi_amount x)) new =
      map (\<lambda>d. (ii_itemType d, ii_amount d)) (map snd xs)"
    using n(1) by (simp add: comp_def)
  have te: "fst (sumItems (?old @ new)) =
      totalOf earning (map (\<lambda>x. (pi_itemType x, pi_amount x)) ?old)
      + totalOf earning (map (\<lambda>d. (ii_itemType d, ii_amount d)) (map snd xs))"
    unfolding sumItems_whole[OF whole b'] fst_conv totalOf_items
    by (simp only: map_append totalOf_append ent)
  have td: "snd (sumItems (?old @ new)) =
      totalOf deduction (map (\<lambda>x. (pi_itemType x, pi_amount x)) ?old)
      + totalOf deduction (map (\<lambda>d. (ii_itemType d, ii_amount d)) (map snd xs))"
    unfolding sumItems_whole[OF whole b'] snd_conv totalOf_items
    by (simp only: map_append totalOf_append ent)
  have net: "p_netSalary (recomputed p (?old @ new)) =
      p_basicSalary p + fst (sumItems (?old @ new)) - snd (sumItems (?old @ new))"
    using net_whole[OF whole wb b]
    by (simp add: sumItems_whole[OF whole b'])
  show ?thesis
    using n(2) te td net by simp
qed

text \<open>
  C4, as amended. The totals are JavaScript-number sums taken in insertion order, so
  they can differ between two orders of the same items. They are identical for every two
  orders when the amounts of all items of the payroll and its basic salary are whole
  numbers whose absolute values add up to less than \<open>2^53\<close>: then every sum is exact.
  The hypotheses are those under which each addItem succeeds (lemma \<open>addItem_step\<close>): the
  payroll is in draft, the request is complete and the actor is authorised.
\<close>

theorem totals_order_independent_for_whole_amounts:
  assumes "store_inv s" and "getPayroll i s = Some p" and "p_status p = Some draft"
    and "\<forall>cd\<in>set xs \<union> set ys. (\<exists>u. checkAdminOrHRManager (fst cd) = Inr u) \<and>
            ii_payrollId (snd cd) = i \<and> ii_amount (snd cd) \<in> \<int>"
    and "mset (map snd xs) = mset (map snd ys)"
    and "p_basicSalary p \<in> \<int>"
    and "\<forall>x\<in>set (getPayrollItemsByPayroll i s). pi_amount x \<in> \<int>"
    and "\<bar>p_basicSalary p\<bar> + (\<Sum>x\<leftarrow>getPayrollItemsByPayroll i s. \<bar>pi_amount x\<bar>)
           + (\<Sum>cd\<leftarrow>xs. \<bar>ii_amount (snd cd)\<bar>) < 2 ^ 53"
  shows "\<exists>q q'. getPayroll i (run (map addItemRequest xs) s) = Some q \<and>
           getPayroll i (run (map addItemRequest ys) s) = Some q' \<and>
           p_totalEarnings q = p_totalEarnings q' \<and>
           p_totalDeductions q = p_totalDeductions q' \<and>
           p_netSalary q = p_netSalary q'"
proof (cases "xs = []")
  case True
  with assms(5) have "ys = []" by simp
  with True assms(2) show ?thesis by (simp add: run_def)
next
  case False
  with assms(5) have ney: "ys \<noteq> []" by auto
  have vx: "\<forall>cd\<in>set xs. (\<exists>u. checkAdminOrHRManager (fst cd) = Inr u) \<and> ii_payrollId (snd cd) = i"
    and vy: "\<forall>cd\<in>set ys. (\<exists>u. checkAdminOrHRManager (fst cd) = Inr u) \<and> ii_payrollId (snd cd) = i"
    and wx: "\<forall>cd\<in>set xs. ii_amount (snd cd) \<in> \<int>"
    and wy: "\<forall>cd\<in>set ys. ii_amount (snd cd) \<in> \<int>"
    using assms(4) by auto
  have "(\<Sum>d\<leftarrow>map snd xs. \<bar>ii_amount d\<bar>) = (\<Sum>d\<leftarrow>map snd ys. \<bar>ii_amount d\<bar>)"
    by (rule sum_abs_mset[OF assms(5)])
  then have "(\<Sum>cd\<leftarrow>xs. \<bar>ii_amount (snd cd)\<bar>) = (\<Sum>cd\<leftarrow>ys. \<bar>ii_amount (snd cd)\<bar>)"
    by (simp add: comp_def)
  with assms(8) have bys: "\<bar>p_basicSalary p\<bar> + (\<Sum>x\<leftarrow>getPayrollItemsByPayroll i s. \<bar>pi_amount x\<bar>)
           + (\<Sum>cd\<leftarrow>ys. \<bar>ii_amount (snd cd)\<bar>) < 2 ^ 53" by simp
  from run_totals_whole[OF assms(1,2,3) vx False assms(6,7) wx assms(8)] obtain q where
    q: "getPayroll i (run (map addItemRequest xs) s) = Some q"
       "p_totalEarnings q =
             totalOf earning (map (\<lambda>x. (pi_itemType x, pi_amount x)) (getPayrollItemsByPayroll i s))
             + totalOf earning (map (\<lambda>d. (ii_itemType d, ii_amount d)) (map snd xs))"
       "p_totalDeductions q =
             totalOf deduction (map (\<lambda>x. (pi_itemType x, pi_amount x)) (getPayrollItemsByPayroll i s))
             + totalOf deduction (map (\<lambda>d. (ii_itemType d, ii_amount d)) (map snd xs))"
       "p_netSalary q = p_basicSalary p + p_totalEarnings q - p_totalDeductions q"
    by blast
  from run_totals_whole[OF assms(1,2,3) vy ney assms(6,7) wy bys] obtain q' where
    q': "getPayroll i (run (map addItemRequest ys) s) = Some q'"
       "p_totalEarnings q' =
             totalOf earning (map (\<lambda>x. (pi_itemType x, pi_amount x)) (getPayrollItemsByPayroll i s))
             + totalOf earning (map (\<lambda>d. (ii_itemType d, ii_amount d)) (map snd ys))"
       "p_totalDeductions q' =
             totalOf deduction (map (\<lambda>x. (pi_itemType x, pi_amount x)) (getPayrollItemsByPayroll i s))
             + totalOf deduction (map (\<lambda>d. (ii_itemType d, ii_amount d)) (map snd ys))"
       "p_netSalary q' = p_basicSalary p + p_totalEarnings q' - p_totalDeductions q'"
    by blast
  have "mset (map (\<lambda>d. (ii_itemType d, ii_amount d)) (map snd xs)) =
        mset (map (\<lambda>d. (ii_itemType d, ii_amount d)) (map snd ys))"
    using assms(5) by (metis mset_map)
  from totalOf_mset[OF this] q q' show ?thesis by simp
qed

lemma example_items_valid:
  "\<forall>cd\<in>set (example_items es). (\<exists>u. checkAdminOrHRManager (fst cd) = Inr u) \<and>
      ii_payrollId (snd cd) = 1"
  using hr_allowed by (auto simp: example_items_def)

lemma example_items_entries:
  "map (\<lambda>cd. (ii_itemType (snd cd), ii_amount (snd cd))) (example_items es) = es"
  by (induction es) (simp_all add: example_items_def)

lemma example_draft: "p_status (example_payroll (Some draft)) = Some draft"
  "p_basicSalary (example_payroll (Some draft)) = 5000"
  by (simp_all add: example_payroll_def)

lemma example_no_items: "getPayrollItemsByPayroll 1 (example_store st) = []"
  by (simp add: getPayrollItemsByPayroll_def example_store_def)

theorem totals_order_independent_for_whole_amounts_witness:
  "mset (map snd (example_items [(earning, 500), (deduction, 200)])) =
     mset (map snd (example_items [(deduction, 200), (earning, 500)])) \<and>
   (\<exists>q q'. getPayroll 1 (run (map addItemRequest (example_items [(earning, 500), (deduction, 200)]))
                           (example_store (Some draft))) = Some q \<and>
      getPayroll 1 (run (map addItemRequest (example_items [(deduction, 200), (earning, 500)]))
                      (example_store (Some draft))) = Some q' \<and>
      p_totalEarnings q = p_totalEarnings q' \<and>
      p_totalDeductions q = p_totalDeductions q' \<and>
      p_netSalary q = p_netSalary q')"
proof -
  let ?xs = "example_items [(earning, 500), (deduction, 200)]"
  let ?ys = "example_items [(deduction, 200), (earning, 500)]"
  have m: "mset (map snd ?xs) = mset (map snd ?ys)"
    by (simp add: example_items_def)
  have v: "\<forall>cd\<in>set ?xs \<union> set ?ys. (\<exists>u. checkAdminOrHRManager (fst cd) = Inr u) \<and>
            ii_payrollId (snd cd) = 1 \<and> ii_amount (snd cd) \<in> \<int>"
    using hr_allowed by (auto simp: example_items_def)
  have wb: "p_basicSalary (example_payroll (Some draft)) \<in> \<int>"
    by (simp add: example_draft)
  have wo: "\<forall>x\<in>set (getPayrollItemsByPayroll 1 (example_store (Some draft))). pi_amount x \<in> \<int>"
    by (simp add: example_no_items del: One_nat_def)
  have b: "\<bar>p_basicSalary (example_payroll (Some draft))\<bar>
      + (\<Sum>x\<leftarrow>getPayrollItemsByPayroll 1 (example_store (Some draft)). \<bar>pi_amount x\<bar>)
      + (\<Sum>cd\<leftarrow>?xs. \<bar>ii_amount (snd cd)\<bar>) < 2 ^ 53"
    by (simp add: example_draft example_no_items example_items_def del: One_nat_def)
  from totals_order_independent_for_whole_amounts[OF example_store_inv example_getPayroll
      example_draft(1) v m wb wo b] m
  show ?thesis by blast
qed

lemma sumItems_entries:
  "fst (sumItems xs) =
     foldl js_add 0 (map (\<lambda>e. Number (snd e))
       (filter (\<lambda>e. fst e = earning) (map (\<lambda>x. (pi_itemType x, pi_amount x)) xs)))"
proof -
  have "map (\<lambda>x. Number (pi_amount x)) (filter (\<lambda>x. pi_itemType x = earning) xs) =
        map (\<lambda>e. Number (snd e))
          (filter (\<lambda>e. fst e = earning) (map (\<lambda>x. (pi_itemType x, pi_amount x)) xs))"
    by (induction xs) simp_all
  then show ?thesis by (simp add: sumItems_folds)
qed

lemma example_run_totalEarnings:
  assumes "es \<noteq> []"
  shows "map_option p_totalEarnings
           (getPayroll 1 (run (map addItemRequest (example_items es)) (example_store (Some draft)))) =
         Some (foldl js_add 0 (map (\<lambda>e. Number (snd e)) (filter (\<lambda>e. fst e = earning) es)))"
proof -
  from assms have ne: "example_items es \<noteq> []" by (simp add: example_items_def)
  from addItems_run[OF example_store_inv example_getPayroll example_draft(1)
      example_items_valid, of es] ne
  obtain new where
    n: "map (\<lambda>x. (pi_itemType x, pi_amount x)) new =
          map (\<lambda>cd. (ii_itemType (snd cd), ii_amount (snd cd))) (example_items es)"
       "getPayroll 1 (run (map addItemRequest (example_items es)) (example_store (Some draft))) =
          Some (recomputed (example_payroll (Some draft))
                  (getPayrollItemsByPayroll 1 (example_store (Some draft)) @ new))"
    by auto
  show ?thesis
    unfolding n(2) example_no_items
    by (simp add: sumItems_entries n(1) example_items_entries)
qed

lemma tenths_ascending:
  "foldl js_add 0 (map (\<lambda>e. Number (snd e))
     (filter (\<lambda>e. fst e = earning) [(earning, 1 / 10), (earning, 1 / 5), (earning, 3 / 10)])) =
   1351079888211149 / 2251799813685248"
  by code_simp

lemma tenths_descending:
  "foldl js_add 0 (map (\<lambda>e. Number (snd e))
     (filter (\<lambda>e. fst e = earning) [(earning, 3 / 10), (earning, 1 / 5), (earning, 1 / 10)])) =
   5404319552844595 / 9007199254740992"
  by code_simp

theorem totals_depend_on_order_counterexample:
  "mset (map snd (example_items [(earning, 1 / 10), (earning, 1 / 5), (earning, 3 / 10)])) =
     mset (map snd (example_items [(earning, 3 / 10), (earning, 1 / 5), (earning, 1 / 10)])) \<and>
   map_option p_totalEarnings
     (getPayroll 1 (run (map addItemRequest
         (example_items [(earning, 1 / 10), (earning, 1 / 5), (earning, 3 / 10)]))
       (example_store (Some draft)))) = Some (1351079888211149 / 2251799813685248) \<and>
   map_option p_totalEarnings
     (getPayroll 1 (run (map addItemRequest
         (example_items [(earning, 3 / 10), (earning, 1 / 5), (earning, 1 / 10)]))
       (example_store (Some draft)))) = Some (5404319552844595 / 9007199254740992) \<and>
   (1351079888211149 / 2251799813685248 :: rat) \<noteq> 5404319552844595 / 9007199254740992"
proof -
  have m: "mset (map snd (example_items [(earning, 1 / 10), (earning, 1 / 5), (earning, 3 / 10)])) =
     mset (map snd (example_items [(earning, 3 / 10), (earning, 1 / 5), (earning, 1 / 10)]))"
    by (simp add: example_items_def)
  have a: "map_option p_totalEarnings
     (getPayroll 1 (run (map addItemRequest
         (example_items [(earning, 1 / 10), (earning, 1 / 5), (earning, 3 / 10)]))
       (example_store (Some draft)))) = Some (1351079888211149 / 2251799813685248)"
    by (subst example_run_totalEarnings) (simp_all only: tenths_ascending list.distinct not_False_eq_True)
  have d: "map_option p_totalEarnings
     (getPayroll 1 (run (map addItemRequest
         (example_items [(earning, 3 / 10), (earning, 1 / 5), (earning, 1 / 10)]))
       (example_store (Some draft)))) = Some (5404319552844595 / 9007199254740992)"
    by (subst example_run_totalEarnings) (simp_all only: tenths_descending list.distinct not_False_eq_True)
  have ne: "(1351079888211149 / 2251799813685248 :: rat) \<noteq> 5404319552844595 / 9007199254740992"
    by simp
  from m a d ne show ?thesis by blast
qed


text \<open>
  The scenario of the specification on the example payroll (basic salary 5000): after the
  earning 500 and the deduction 200 the totals are 500 and 200 and the net salary is 5300;
  after approve, addItem answers \<open>InvalidState\<close>.
\<close>

lemma scenario_totals:
  "\<exists>q. getPayroll 1 (run (map addItemRequest (example_items [(earning, 500), (deduction, 200)]))
                       (example_store (Some draft))) = Some q \<and>
        p_totalEarnings q = 500 \<and> p_totalDeductions q = 200 \<and> p_netSalary q = 5300"
proof -
  let ?xs = "example_items [(earning, 500), (deduction, 200)]"
  have ne: "?xs \<noteq> []" by (simp add: example_items_def)
  have wb: "p_basicSalary (example_payroll (Some draft)) \<in> \<int>"
    by (simp add: example_draft)
  have wo: "\<forall>x\<in>set (getPayrollItemsByPayroll 1 (example_store (Some draft))). pi_amount x \<in> \<int>"
    by (simp add: example_no_items del: One_nat_def)
  have wn: "\<forall>cd\<in>set ?xs. ii_amount (snd cd) \<in> \<int>"
    by (simp add: example_items_def)
  have b: "\<bar>p_basicSalary (example_payroll (Some draft))\<bar>
      + (\<Sum>x\<leftarrow>getPayrollItemsByPayroll 1 (example_store (Some draft)). \<bar>pi_amount x\<bar>)
      + (\<Sum>cd\<leftarrow>?xs. \<bar>ii_amount (snd cd)\<bar>) < 2 ^ 53"
    by (simp add: example_draft example_no_items example_items_def del: One_nat_def)
  from run_totals_whole[OF example_store_inv example_getPayroll example_draft(1)
      example_items_valid ne wb wo wn b]
  have "\<exists>q. getPayroll 1 (run (map addItemRequest ?xs) (example_store (Some draft))) = Some q \<and>
        p_totalEarnings q = 500 \<and> p_totalDeductions q = 200 \<and>
        p_netSalary q = 5000 + p_totalEarnings q - p_totalDeductions q"
    by (simp add: example_no_items example_draft totalOf_def example_items_def
        del: One_nat_def)
  then obtain q where
    "getPayroll 1 (run (map addItemRequest ?xs) (example_store (Some draft))) = Some q"
    "p_totalEarnings q = 500" "p_totalDeductions q = 200"
    "p_netSalary q = 5000 + p_totalEarnings q - p_totalDeductions q" by blast
  then show ?thesis by simp
qed

lemma scenario_addItem_after_approve:
  assumes "getPayroll 1 s = Some p" "p_status p = Some draft"
  shows "fst (post_payroll_items hr_ctx (itemBody d\<lparr>ib_payrollId := Some 1\<rparr>)
               (snd (post_payrolls_approve hr_ctx 1 s))) = Inl InvalidState"
proof -
  let ?s1 = "snd (post_payrolls_approve hr_ctx 1 s)"
  let ?b = "itemBody d\<lparr>ib_payrollId := Some 1\<rparr>"
  let ?d = "d\<lparr>ii_payrollId := 1\<rparr>"
  from post_approve_draft[OF assms hr_allowed] obtain q where
    q: "getPayroll 1 ?s1 = Some q" "p_status q = Some approved" by simp
  have parse: "insertPayrollItemSchema_parse ?b = Some ?d"
    by (simp add: insertPayrollItemSchema_parse_def itemBody_def)
  have gq: "getPayroll (ii_payrollId ?d) ?s1 = Some q" using q(1) by simp
  have "p_status q \<noteq> Some draft" using q(2) by simp
  from post_items_not_draft[OF hr_allowed parse gq this] show ?thesis by simp
qed

subsection \<open>The stored totals and the exact sums\<close>







end
